theory Spec2Isabelle
  imports Complex_Main "HOL-Library.AList"
begin

section \<open>Errors\<close>

text \<open>
  The annotation tools raise \<open>MirRuntimeError\<close> with an error code and a message; the
  message is kept as a list of strings (one string for a fixed message, the list of
  names for \<open>RC_CMD_UNKNOWN_TYPES\<close>, whose message is the printed list of the keys).
  The other constructors are the Python exceptions the modelled code can raise.
\<close>

datatype MirCode =
    RC_CMD_INVALID_ARGS
  | RC_CMD_UNKNOWN_TYPES
  | RC_CMD_INVALID_META_YAML_FILE
  | RC_CMD_INVALID_ANNO_TYPE
  | RC_CMD_MERGE_ERROR

datatype error =
    MirRuntimeError MirCode "string list"
  | NotImplementedError
  | KeyError
  | ValueError
  | ExpatError

section \<open>Data model: the annotation records\<close>

text \<open>
  The protobuf messages of \<open>mir_command_pb2\<close>, with the fields the annotation tools read
  and write. Numbers read with \<open>float(...)\<close> are kept as the rational value of the float;
  the parse of the text and the rounding of a stored \<open>float\<close> field are outside the model.
  Python integers are unbounded, so coordinates are \<open>int\<close>.
\<close>

record Rect =
  box_x :: int
  box_y :: int
  box_w :: int
  box_h :: int
  rotate_angle :: rat

record ObjectAnnotation =
  index :: nat
  box :: Rect
  class_id :: int
  score :: rat
  anno_quality :: rat
  tags :: "string \<rightharpoonup> string"

type_synonym color = "int \<times> int \<times> int"

text \<open>A mask annotation holds the PNG bytes of a mask; the model keeps the decoded pixels.\<close>

record MaskAnnotation =
  semantic_mask :: "color list list"

record SingleImageAnnotations =
  boxes :: "ObjectAnnotation list"
  masks :: "MaskAnnotation list"
  img_class_ids :: "int set"

record ModelMeta =
  model_hash :: string
  class_names :: "string list"

text \<open>
  A protobuf map field that the code iterates over is a list of key and value pairs
  (\<open>map_of\<close> looks a key up, \<open>AList.update\<close> writes an entry); the order of the pairs
  stands for the iteration order of the map, which the source leaves open.
\<close>

record SingleTaskAnnotations =
  image_annotations :: "(string \<times> SingleImageAnnotations) list"
  task_type :: int
  task_class_ids :: "int set"
  map_id_color :: "int \<rightharpoonup> color"
  eval_class_ids :: "int list"
  executor_config :: string
  model :: ModelMeta

record SingleImageCks =
  cks :: "string \<rightharpoonup> string"
  image_quality :: rat

record ClassIdsStats =
  class_ids_cnt :: "(int \<times> int) list"

record MirContext =
  pred_stats :: ClassIdsStats
  gt_stats :: ClassIdsStats

record MirAnnotations =
  prediction :: SingleTaskAnnotations
  ground_truth :: SingleTaskAnnotations
  image_cks :: "(string \<times> SingleImageCks) list"

text \<open>
  Modelled from the spec: the enum \<open>AnnoType\<close> of the generated protobuf module is not
  part of the sources. Its values are the four types of the data model; \<open>AT_UNKNOWN\<close> is
  the default value of the field, number 0, which Python's \<open>or\<close> treats as false.
\<close>

definition AT_UNKNOWN :: int where "AT_UNKNOWN = 0"
definition AT_DET_BOX :: int where "AT_DET_BOX = 1"
definition AT_SEG_POLYGON :: int where "AT_SEG_POLYGON = 2"
definition AT_SEG_MASK :: int where "AT_SEG_MASK = 3"

text \<open>The default (empty) messages, as \<open>mirpb.X()\<close> constructs them.\<close>

definition ModelMeta0 :: ModelMeta where
  "ModelMeta0 = \<lparr>model_hash = [], class_names = []\<rparr>"

definition SingleImageAnnotations0 :: SingleImageAnnotations where
  "SingleImageAnnotations0 = \<lparr>boxes = [], masks = [], img_class_ids = {}\<rparr>"

definition SingleTaskAnnotations0 :: SingleTaskAnnotations where
  "SingleTaskAnnotations0 =
     \<lparr>image_annotations = [], task_type = AT_UNKNOWN, task_class_ids = {},
      map_id_color = Map.empty, eval_class_ids = [], executor_config = [],
      model = ModelMeta0\<rparr>"

definition SingleImageCks0 :: SingleImageCks where
  "SingleImageCks0 = \<lparr>cks = Map.empty, image_quality = 0\<rparr>"

definition MirAnnotations0 :: MirAnnotations where
  "MirAnnotations0 =
     \<lparr>prediction = SingleTaskAnnotations0, ground_truth = SingleTaskAnnotations0,
      image_cks = []\<rparr>"

section \<open>The box importer\<close>

text \<open>
  An object node of the parsed XML. \<open>od_bndbox\<close> is \<open>None\<close> when the key is absent or
  its value is None; the dictionary itself is a list of key and value pairs, false in a
  condition when it is empty.
\<close>

record object_dict =
  od_name :: "string option"
  od_confidence :: "rat option"
  od_box_quality :: "rat option"
  od_tags :: "(string \<times> string) list"
  od_bndbox :: "(string \<times> rat) list option"
  od_polygon :: bool

text \<open>Python's \<open>int(f)\<close> on a float: truncation towards zero.\<close>

definition py_int :: "rat \<Rightarrow> int" where
  "py_int q = (if 0 \<le> q then \<lfloor>q\<rfloor> else \<lceil>q\<rceil>)"

text \<open>\<open>d[k]\<close> on a dictionary: KeyError when the key is missing.\<close>

definition dict_get :: "('k \<times> 'v) list \<Rightarrow> 'k \<Rightarrow> error + 'v" where
  "dict_get d k = (case map_of d k of None \<Rightarrow> Inl KeyError | Some v \<Rightarrow> Inr v)"

definition object_dict_to_annotation :: "object_dict \<Rightarrow> int \<Rightarrow> error + ObjectAnnotation" where
  "object_dict_to_annotation od cid =
     (let annotation_score = (case od_confidence od of None \<Rightarrow> -1 | Some c \<Rightarrow> c);
          annotation_quality = (case od_box_quality od of None \<Rightarrow> -1 | Some q \<Rightarrow> q);
          annotation_tags = map_of (od_tags od)
      in case od_bndbox od of
           Some (kv # kvs) \<Rightarrow>
             (let bndbox_dict = kv # kvs in
              case dict_get bndbox_dict ''xmin'' of Inl e \<Rightarrow> Inl e | Inr fxmin \<Rightarrow>
             (case dict_get bndbox_dict ''ymin'' of Inl e \<Rightarrow> Inl e | Inr fymin \<Rightarrow>
             (case dict_get bndbox_dict ''xmax'' of Inl e \<Rightarrow> Inl e | Inr fxmax \<Rightarrow>
             (case dict_get bndbox_dict ''ymax'' of Inl e \<Rightarrow> Inl e | Inr fymax \<Rightarrow>
              (let xmin = py_int fxmin; ymin = py_int fymin;
                   xmax = py_int fxmax; ymax = py_int fymax;
                   width = xmax - xmin + 1;
                   height = ymax - ymin + 1
               in Inr \<lparr>index = 0,
                        box = \<lparr>box_x = xmin, box_y = ymin, box_w = width, box_h = height,
                               rotate_angle =
                                 (case map_of bndbox_dict ''rotate_angle'' of
                                    None \<Rightarrow> 0 | Some r \<Rightarrow> r)\<rparr>,
                        class_id = cid, score = annotation_score,
                        anno_quality = annotation_quality, tags = annotation_tags\<rparr>)))))
         | _ \<Rightarrow>
             if od_polygon od then Inl NotImplementedError
             else Inl (MirRuntimeError RC_CMD_INVALID_ARGS [''no value for bndbox or polygon'']))"

section \<open>Properties of the box importer\<close>

lemma py_int_of_int: "py_int (of_int n) = n"
  by (simp add: py_int_def)

text \<open>
  C8: for every object record whose bndbox carries the four bounds, the box importer
  returns an annotation with x = xmin, y = ymin, w = xmax - xmin + 1 and
  h = ymax - ymin + 1, the bounds being the integers read from the record.
\<close>

theorem object_dict_to_annotation_box:
  assumes "od_bndbox od = Some bb"
    and "map_of bb ''xmin'' = Some fxmin" and "map_of bb ''ymin'' = Some fymin"
    and "map_of bb ''xmax'' = Some fxmax" and "map_of bb ''ymax'' = Some fymax"
  shows "\<exists>a. object_dict_to_annotation od cid = Inr a
           \<and> box_x (box a) = py_int fxmin \<and> box_y (box a) = py_int fymin
           \<and> box_w (box a) = py_int fxmax - py_int fxmin + 1
           \<and> box_h (box a) = py_int fymax - py_int fymin + 1"
proof -
  from assms(2) obtain kv kvs where bb: "bb = kv # kvs"
    by (cases bb) auto
  show ?thesis
    using assms unfolding bb
    by (simp add: object_dict_to_annotation_def dict_get_def Let_def del: map_of.simps)
qed

theorem object_dict_to_annotation_box_witness:
  "\<exists>a. object_dict_to_annotation
         \<lparr>od_name = Some ''cat'', od_confidence = None, od_box_quality = None, od_tags = [],
          od_bndbox = Some [(''xmin'', 10), (''ymin'', 10), (''xmax'', 19), (''ymax'', 14)],
          od_polygon = False\<rparr> 3 = Inr a
       \<and> box_x (box a) = 10 \<and> box_y (box a) = 10 \<and> box_w (box a) = 10 \<and> box_h (box a) = 5"
  using object_dict_to_annotation_box
    [of "\<lparr>od_name = Some ''cat'', od_confidence = None, od_box_quality = None, od_tags = [],
          od_bndbox = Some [(''xmin'', 10), (''ymin'', 10), (''xmax'', 19), (''ymax'', 14)],
          od_polygon = False\<rparr>"
        "[(''xmin'', 10), (''ymin'', 10), (''xmax'', 19), (''ymax'', 14)]" 10 10 19 14 3]
  by (simp add: py_int_def)

section \<open>Python values\<close>

text \<open>\<open>str.lower()\<close> on the ASCII letters.\<close>

definition lower_char :: "char \<Rightarrow> char" where
  "lower_char c =
     (let n = (of_char c :: nat) in if 65 \<le> n \<and> n \<le> 90 then char_of (n + 32) else c)"

definition lower :: "string \<Rightarrow> string" where
  "lower s = map lower_char s"

text \<open>
  \<open>set(m.keys())\<close>: a Python set is a list without duplicates here, because the code
  iterates over it; the order of a set's elements is left open by the source, and every
  loop over one writes entries by key.
\<close>

definition keys :: "('k \<times> 'v) list \<Rightarrow> 'k list" where
  "keys m = remdups (map fst m)"

section \<open>The class-id registry\<close>

text \<open>
  Modelled from the spec: the module \<open>class_ids\<close> (class \<open>UserLabels\<close>) is not part of the
  sources. The registry is an ordered list of entries (id, main name, aliases).
  \<open>id_and_main_name_for_name\<close> resolves a name or an alias to the id and the main name of
  its entry, and gives id -1 for an unknown name, whose canonical name is the name itself.
  \<open>add_main_name\<close> appends an entry with the next unused id for an unknown name and
  resolves a known one. \<open>load_or_create_userlabels\<close> is a function from the path of a label
  file to its registry, passed to the operations that load one.
\<close>

record LabelEntry =
  label_id :: int
  main_name :: string
  aliases :: "string list"

type_synonym UserLabels = "LabelEntry list"

fun id_and_main_name_for_name :: "UserLabels \<Rightarrow> string \<Rightarrow> int \<times> string" where
  "id_and_main_name_for_name [] name = (-1, name)"
| "id_and_main_name_for_name (e # es) name =
     (if name = main_name e \<or> name \<in> set (aliases e) then (label_id e, main_name e)
      else id_and_main_name_for_name es name)"

definition all_main_names :: "UserLabels \<Rightarrow> string list" where
  "all_main_names reg = map main_name reg"

definition all_ids :: "UserLabels \<Rightarrow> int list" where
  "all_ids reg = map label_id reg"

definition main_name_for_id :: "UserLabels \<Rightarrow> int \<Rightarrow> error + string" where
  "main_name_for_id reg i =
     (case find (\<lambda>e. label_id e = i) reg of None \<Rightarrow> Inl KeyError | Some e \<Rightarrow> Inr (main_name e))"

definition next_id :: "UserLabels \<Rightarrow> int" where
  "next_id reg = fold (\<lambda>e m. max m (label_id e + 1)) reg 0"

definition add_main_name :: "UserLabels \<Rightarrow> string \<Rightarrow> UserLabels \<times> (int \<times> string)" where
  "add_main_name reg name =
     (case id_and_main_name_for_name reg name of
        (cid, cname) \<Rightarrow>
          if 0 \<le> cid then (reg, (cid, cname))
          else (reg @ [\<lparr>label_id = next_id reg, main_name = name, aliases = []\<rparr>],
                (next_id reg, name)))"

definition add_main_names :: "UserLabels \<Rightarrow> string list \<Rightarrow> UserLabels" where
  "add_main_names reg names = fold (\<lambda>name r. fst (add_main_name r name)) names reg"

text \<open>\<open>id_for_names(names, drop_unknown_names=True)\<close>: the known ids and the unknown names.\<close>

definition id_for_names :: "UserLabels \<Rightarrow> string list \<Rightarrow> int list \<times> string list" where
  "id_for_names reg names =
     (filter (\<lambda>i. 0 \<le> i) (map (\<lambda>n. fst (id_and_main_name_for_name reg n)) names),
      filter (\<lambda>n. fst (id_and_main_name_for_name reg n) < 0) names)"

section \<open>Merging two annotation sets\<close>

definition match_asset_ids :: "'k list \<Rightarrow> 'k list \<Rightarrow> 'k list \<times> 'k list \<times> 'k list" where
  "match_asset_ids host_ids guest_ids =
     (let insets = filter (\<lambda>a. a \<in> set guest_ids) host_ids
      in (filter (\<lambda>a. a \<notin> set insets) host_ids,
          filter (\<lambda>a. a \<notin> set insets) guest_ids,
          insets))"

text \<open>
  \<open>for asset_id in ids: target[asset_id].CopyFrom(src[asset_id])\<close>. Reading a key that a
  protobuf map does not hold gives the default message \<open>dflt\<close>.
\<close>

definition copy_entries ::
  "'v \<Rightarrow> 'k list \<Rightarrow> ('k \<times> 'v) list \<Rightarrow> ('k \<times> 'v) list \<Rightarrow> ('k \<times> 'v) list" where
  "copy_entries dflt ids src target =
     fold (\<lambda>asset_id t.
             AList.update asset_id (case map_of src asset_id of None \<Rightarrow> dflt | Some v \<Rightarrow> v) t)
          ids target"

text \<open>The loop over the joint ids, shared by the two merge functions.\<close>

definition merge_joint ::
  "'v \<Rightarrow> string \<Rightarrow> 'k list \<Rightarrow> ('k \<times> 'v) list \<Rightarrow> ('k \<times> 'v) list \<Rightarrow> ('k \<times> 'v) list
     \<Rightarrow> ('k \<times> 'v) list" where
  "merge_joint dflt strategy joint_ids host guest target =
     fold (\<lambda>asset_id t.
             if lower strategy = ''host'' then
               (if map_of t asset_id = None then copy_entries dflt [asset_id] host t else t)
             else if lower strategy = ''guest'' then copy_entries dflt [asset_id] guest t
             else t)
          joint_ids target"

text \<open>
  The merge functions mutate \<open>target\<close> and raise on a conflict; the model returns the
  target as the call leaves it, with the error raised (if any). \<open>merge_annotations\<close> passes
  the host as the target: every entry the loops read from the host is one they have not
  written, so the host of the call stands for the aliased object.
\<close>

definition merge_pair_annotations ::
  "SingleTaskAnnotations \<Rightarrow> SingleTaskAnnotations \<Rightarrow> SingleTaskAnnotations \<Rightarrow> string
     \<Rightarrow> SingleTaskAnnotations \<times> error option" where
  "merge_pair_annotations host_annotation guest_annotation target_annotation strategy =
     (if task_type host_annotation \<noteq> AT_UNKNOWN \<and> task_type guest_annotation \<noteq> AT_UNKNOWN
         \<and> task_type host_annotation \<noteq> task_type guest_annotation
      then (target_annotation,
            Some (MirRuntimeError RC_CMD_INVALID_ANNO_TYPE [''host and guest anno type mismatch'']))
      else
        let target1 = target_annotation
              \<lparr>task_type := (if task_type host_annotation \<noteq> 0 then task_type host_annotation
                              else task_type guest_annotation)\<rparr>
        in case match_asset_ids (keys (image_annotations host_annotation))
                                (keys (image_annotations guest_annotation)) of
             (host_only_ids, guest_only_ids, joint_ids) \<Rightarrow>
               if strategy = ''stop'' \<and> joint_ids \<noteq> [] then
                 (target1,
                  Some (MirRuntimeError RC_CMD_MERGE_ERROR
                          [''found conflict annotations in strategy stop'']))
               else
                 let t1 = copy_entries SingleImageAnnotations0 host_only_ids
                            (image_annotations host_annotation) (image_annotations target1);
                     t2 = copy_entries SingleImageAnnotations0 guest_only_ids
                            (image_annotations guest_annotation) t1;
                     t3 = merge_joint SingleImageAnnotations0 strategy joint_ids
                            (image_annotations host_annotation)
                            (image_annotations guest_annotation) t2
                 in (target1\<lparr>image_annotations := t3\<rparr>, None))"

definition merge_annotation_image_cks ::
  "MirAnnotations \<Rightarrow> MirAnnotations \<Rightarrow> MirAnnotations \<Rightarrow> string
     \<Rightarrow> MirAnnotations \<times> error option" where
  "merge_annotation_image_cks host_mir_annotations guest_mir_annotations
       target_mir_annotations strategy =
     (case match_asset_ids (keys (image_cks host_mir_annotations))
                           (keys (image_cks guest_mir_annotations)) of
        (host_only_ids, guest_only_ids, joint_ids) \<Rightarrow>
          if strategy = ''stop'' \<and> joint_ids \<noteq> [] then
            (target_mir_annotations,
             Some (MirRuntimeError RC_CMD_MERGE_ERROR
                     [''found conflict image cks in strategy stop'']))
          else
            let t1 = copy_entries SingleImageCks0 host_only_ids
                       (image_cks host_mir_annotations) (image_cks target_mir_annotations);
                t2 = copy_entries SingleImageCks0 guest_only_ids
                       (image_cks guest_mir_annotations) t1;
                t3 = merge_joint SingleImageCks0 strategy joint_ids
                       (image_cks host_mir_annotations) (image_cks guest_mir_annotations) t2
            in (target_mir_annotations\<lparr>image_cks := t3\<rparr>, None))"

definition merge_annotations ::
  "MirAnnotations \<Rightarrow> MirAnnotations \<Rightarrow> string \<Rightarrow> MirAnnotations \<times> error option" where
  "merge_annotations host_mir_annotations guest_mir_annotations strategy =
     (case merge_pair_annotations (prediction host_mir_annotations)
             (prediction guest_mir_annotations) (prediction host_mir_annotations) strategy of
        (p, Some e) \<Rightarrow> (host_mir_annotations\<lparr>prediction := p\<rparr>, Some e)
      | (p, None) \<Rightarrow>
          let host1 = host_mir_annotations
                \<lparr>prediction := p\<lparr>eval_class_ids :=
                    eval_class_ids p @ eval_class_ids (prediction guest_mir_annotations)\<rparr>\<rparr>
          in (case merge_pair_annotations (ground_truth host1)
                     (ground_truth guest_mir_annotations) (ground_truth host1) strategy of
                (g, Some e) \<Rightarrow> (host1\<lparr>ground_truth := g\<rparr>, Some e)
              | (g, None) \<Rightarrow>
                  merge_annotation_image_cks (host1\<lparr>ground_truth := g\<rparr>) guest_mir_annotations
                    (host1\<lparr>ground_truth := g\<rparr>) strategy))"

section \<open>Properties of the merge\<close>




lemma map_of_copy_entries:
  "map_of (copy_entries d ids src t) k =
     (if k \<in> set ids then Some (case map_of src k of None \<Rightarrow> d | Some v \<Rightarrow> v) else map_of t k)"
  unfolding copy_entries_def
  by (induction ids arbitrary: t) (auto simp: update_conv')



lemma set_keys: "set (keys m) = fst ` set m"
  by (simp add: keys_def)

lemma match_asset_ids_sets:
  "match_asset_ids hs gs = (ho, go, j) \<Longrightarrow>
     set ho = set hs - set gs \<and> set go = set gs - set hs \<and> set j = set hs \<inter> set gs"
  by (auto simp: match_asset_ids_def Let_def)



lemma merge_pair_stop_conflict:
  assumes "\<not> (task_type h \<noteq> AT_UNKNOWN \<and> task_type g \<noteq> AT_UNKNOWN \<and> task_type h \<noteq> task_type g)"
    and "fst ` set (image_annotations h) \<inter> fst ` set (image_annotations g) \<noteq> {}"
  shows "merge_pair_annotations h g t ''stop'' =
     (t\<lparr>task_type := (if task_type h \<noteq> 0 then task_type h else task_type g)\<rparr>,
      Some (MirRuntimeError RC_CMD_MERGE_ERROR [''found conflict annotations in strategy stop'']))"
proof -
  obtain ho go j where m: "match_asset_ids (keys (image_annotations h)) (keys (image_annotations g)) = (ho, go, j)"
    by (cases "match_asset_ids (keys (image_annotations h)) (keys (image_annotations g))") auto
  from match_asset_ids_sets[OF m] assms(2) have "j \<noteq> []"
    by (auto simp: set_keys)
  with assms(1) m show ?thesis
    by (simp add: merge_pair_annotations_def Let_def)
qed

lemma merge_pair_ok:
  assumes "\<not> (task_type h \<noteq> AT_UNKNOWN \<and> task_type g \<noteq> AT_UNKNOWN \<and> task_type h \<noteq> task_type g)"
    and "s \<noteq> ''stop'' \<or> fst ` set (image_annotations h) \<inter> fst ` set (image_annotations g) = {}"
  shows "merge_pair_annotations h g t s =
     (t\<lparr>task_type := (if task_type h \<noteq> 0 then task_type h else task_type g),
        image_annotations :=
          merge_joint SingleImageAnnotations0 s
            (filter (\<lambda>a. a \<in> set (keys (image_annotations g))) (keys (image_annotations h)))
            (image_annotations h) (image_annotations g)
            (copy_entries SingleImageAnnotations0
               (filter (\<lambda>a. a \<notin> set (keys (image_annotations h))) (keys (image_annotations g)))
               (image_annotations g)
               (copy_entries SingleImageAnnotations0
                  (filter (\<lambda>a. a \<notin> set (keys (image_annotations g))) (keys (image_annotations h)))
                  (image_annotations h) (image_annotations t)))\<rparr>, None)"
proof -
  have j: "s = ''stop'' \<Longrightarrow> filter (\<lambda>a. a \<in> set (keys (image_annotations g))) (keys (image_annotations h)) = []"
    using assms(2) by (auto simp: set_keys filter_empty_conv)
  have f1: "filter (\<lambda>a. a \<in> set (keys (image_annotations h)) \<longrightarrow> a \<notin> set (keys (image_annotations g))) (keys (image_annotations h))
     = filter (\<lambda>a. a \<notin> set (keys (image_annotations g))) (keys (image_annotations h))"
    by (rule filter_cong) auto
  have f2: "filter (\<lambda>a. a \<in> set (keys (image_annotations h)) \<longrightarrow> a \<notin> set (keys (image_annotations g))) (keys (image_annotations g))
     = filter (\<lambda>a. a \<notin> set (keys (image_annotations h))) (keys (image_annotations g))"
    by (rule filter_cong) auto
  show ?thesis
    using assms(1) j
    by (auto simp: merge_pair_annotations_def match_asset_ids_def Let_def f1 f2)
qed

lemma merge_cks_stop_conflict:
  assumes "fst ` set (image_cks h) \<inter> fst ` set (image_cks g) \<noteq> {}"
  shows "merge_annotation_image_cks h g t ''stop'' =
     (t, Some (MirRuntimeError RC_CMD_MERGE_ERROR [''found conflict image cks in strategy stop'']))"
proof -
  obtain ho go j where m: "match_asset_ids (keys (image_cks h)) (keys (image_cks g)) = (ho, go, j)"
    by (cases "match_asset_ids (keys (image_cks h)) (keys (image_cks g))") auto
  from match_asset_ids_sets[OF m] assms have "j \<noteq> []"
    by (auto simp: set_keys)
  with m show ?thesis
    by (simp add: merge_annotation_image_cks_def Let_def)
qed








text \<open>
  C3 (as amended): in a merge with strategy "stop" whose prediction types are compatible,
  a pair with a joint asset id makes the merge fail with the merge-conflict error, and
  leaves that pair of the host as it was but for its type, which is set (to the host's
  type, or to the guest's when the host's is unknown) before the joint ids are looked at.
  For the predictions the whole host is left so. For the ground truths and the image
  custom keys, the merge must reach the pair or stop before it on a conflict: the
  predictions have a joint id, or the ground-truth types are compatible too. The image
  custom keys are left exactly as they were.
\<close>

theorem merge_annotations_stop_conflict:
  assumes cp: "task_type (prediction host) = AT_UNKNOWN \<or> task_type (prediction guest) = AT_UNKNOWN
               \<or> task_type (prediction host) = task_type (prediction guest)"
    and r: "merge_annotations host guest ''stop'' = (host', err)"
  shows "(fst ` set (image_annotations (prediction host))
            \<inter> fst ` set (image_annotations (prediction guest)) \<noteq> {} \<longrightarrow>
          err = Some (MirRuntimeError RC_CMD_MERGE_ERROR
                        [''found conflict annotations in strategy stop''])
          \<and> host' = host\<lparr>prediction := (prediction host)
                \<lparr>task_type := (if task_type (prediction host) \<noteq> AT_UNKNOWN
                                then task_type (prediction host)
                                else task_type (prediction guest))\<rparr>\<rparr>)
       \<and> (fst ` set (image_annotations (ground_truth host))
            \<inter> fst ` set (image_annotations (ground_truth guest)) \<noteq> {}
          \<and> (fst ` set (image_annotations (prediction host))
                \<inter> fst ` set (image_annotations (prediction guest)) \<noteq> {}
              \<or> task_type (ground_truth host) = AT_UNKNOWN
              \<or> task_type (ground_truth guest) = AT_UNKNOWN
              \<or> task_type (ground_truth host) = task_type (ground_truth guest)) \<longrightarrow>
          err = Some (MirRuntimeError RC_CMD_MERGE_ERROR
                        [''found conflict annotations in strategy stop''])
          \<and> ground_truth host' =
              (if fst ` set (image_annotations (prediction host))
                    \<inter> fst ` set (image_annotations (prediction guest)) \<noteq> {}
               then ground_truth host
               else (ground_truth host)
                      \<lparr>task_type := (if task_type (ground_truth host) \<noteq> AT_UNKNOWN
                                      then task_type (ground_truth host)
                                      else task_type (ground_truth guest))\<rparr>))
       \<and> (fst ` set (image_cks host) \<inter> fst ` set (image_cks guest) \<noteq> {}
          \<and> (fst ` set (image_annotations (prediction host))
                \<inter> fst ` set (image_annotations (prediction guest)) \<noteq> {}
              \<or> task_type (ground_truth host) = AT_UNKNOWN
              \<or> task_type (ground_truth guest) = AT_UNKNOWN
              \<or> task_type (ground_truth host) = task_type (ground_truth guest)) \<longrightarrow>
          (\<exists>msg. err = Some (MirRuntimeError RC_CMD_MERGE_ERROR msg))
          \<and> image_cks host' = image_cks host)"
proof (cases "fst ` set (image_annotations (prediction host))
            \<inter> fst ` set (image_annotations (prediction guest)) = {}")
  case False
  from cp have "\<not> (task_type (prediction host) \<noteq> AT_UNKNOWN \<and> task_type (prediction guest) \<noteq> AT_UNKNOWN
      \<and> task_type (prediction host) \<noteq> task_type (prediction guest))" by auto
  from merge_pair_stop_conflict[OF this False, of "prediction host"] r
  have "(host', err) =
      (host\<lparr>prediction := (prediction host)
              \<lparr>task_type := (if task_type (prediction host) \<noteq> 0
                              then task_type (prediction host)
                              else task_type (prediction guest))\<rparr>\<rparr>,
       Some (MirRuntimeError RC_CMD_MERGE_ERROR [''found conflict annotations in strategy stop'']))"
    by (simp add: merge_annotations_def)
  with False show ?thesis
    by (simp add: AT_UNKNOWN_def)
next
  case jp: True
  from cp have np: "\<not> (task_type (prediction host) \<noteq> AT_UNKNOWN \<and> task_type (prediction guest) \<noteq> AT_UNKNOWN
      \<and> task_type (prediction host) \<noteq> task_type (prediction guest))" by auto
  obtain P where p: "merge_pair_annotations (prediction host) (prediction guest) (prediction host) ''stop'' = (P, None)"
    using merge_pair_ok[OF np, of "''stop''" "prediction host"] jp by simp
  show ?thesis
  proof (cases "task_type (ground_truth host) = AT_UNKNOWN
              \<or> task_type (ground_truth guest) = AT_UNKNOWN
              \<or> task_type (ground_truth host) = task_type (ground_truth guest)")
    case False
    with jp show ?thesis by simp
  next
    case cg: True
    then have ng: "\<not> (task_type (ground_truth host) \<noteq> AT_UNKNOWN \<and> task_type (ground_truth guest) \<noteq> AT_UNKNOWN
        \<and> task_type (ground_truth host) \<noteq> task_type (ground_truth guest))" by auto
    show ?thesis
    proof (cases "fst ` set (image_annotations (ground_truth host))
              \<inter> fst ` set (image_annotations (ground_truth guest)) = {}")
      case False
      from r have "(host', err) =
         (host\<lparr>prediction := P\<lparr>eval_class_ids := eval_class_ids P @ eval_class_ids (prediction guest)\<rparr>,
               ground_truth := (ground_truth host)\<lparr>task_type :=
                 (if task_type (ground_truth host) \<noteq> 0 then task_type (ground_truth host)
                  else task_type (ground_truth guest))\<rparr>\<rparr>,
          Some (MirRuntimeError RC_CMD_MERGE_ERROR [''found conflict annotations in strategy stop'']))"
        by (simp add: merge_annotations_def p Let_def merge_pair_stop_conflict[OF ng False])
      with jp show ?thesis by (simp add: AT_UNKNOWN_def)
    next
      case jg: True
      obtain G where g: "merge_pair_annotations (ground_truth host) (ground_truth guest) (ground_truth host) ''stop'' = (G, None)"
        using merge_pair_ok[OF ng, of "''stop''" "ground_truth host"] jg by simp
      show ?thesis
      proof (cases "fst ` set (image_cks host) \<inter> fst ` set (image_cks guest) = {}")
        case True
        with jp jg show ?thesis by simp
      next
        case False
        from r have "(host', err) =
         (host\<lparr>prediction := P\<lparr>eval_class_ids := eval_class_ids P @ eval_class_ids (prediction guest)\<rparr>,
               ground_truth := G\<rparr>,
          Some (MirRuntimeError RC_CMD_MERGE_ERROR [''found conflict image cks in strategy stop'']))"
          using False
          by (simp add: merge_annotations_def p g Let_def merge_cks_stop_conflict)
        with jp jg show ?thesis by simp
      qed
    qed
  qed
qed

theorem merge_annotations_stop_conflict_witness:
  "snd (merge_annotations
       (MirAnnotations0\<lparr>prediction := SingleTaskAnnotations0
            \<lparr>image_annotations := [(''a'', SingleImageAnnotations0\<lparr>img_class_ids := {1}\<rparr>)],
             task_type := AT_DET_BOX\<rparr>,
          image_cks := [(''a'', SingleImageCks0\<lparr>image_quality := 1\<rparr>)]\<rparr>)
       (MirAnnotations0\<lparr>prediction := SingleTaskAnnotations0
            \<lparr>image_annotations := [(''a'', SingleImageAnnotations0\<lparr>img_class_ids := {2}\<rparr>)]\<rparr>,
          image_cks := [(''a'', SingleImageCks0\<lparr>image_quality := 2\<rparr>)]\<rparr>)
       ''stop'')
     = Some (MirRuntimeError RC_CMD_MERGE_ERROR [''found conflict annotations in strategy stop''])
   \<and> fst (merge_annotations
       (MirAnnotations0\<lparr>prediction := SingleTaskAnnotations0
            \<lparr>image_annotations := [(''a'', SingleImageAnnotations0\<lparr>img_class_ids := {1}\<rparr>)],
             task_type := AT_DET_BOX\<rparr>,
          image_cks := [(''a'', SingleImageCks0\<lparr>image_quality := 1\<rparr>)]\<rparr>)
       (MirAnnotations0\<lparr>prediction := SingleTaskAnnotations0
            \<lparr>image_annotations := [(''a'', SingleImageAnnotations0\<lparr>img_class_ids := {2}\<rparr>)]\<rparr>,
          image_cks := [(''a'', SingleImageCks0\<lparr>image_quality := 2\<rparr>)]\<rparr>)
       ''stop'')
     = (MirAnnotations0\<lparr>prediction := SingleTaskAnnotations0
            \<lparr>image_annotations := [(''a'', SingleImageAnnotations0\<lparr>img_class_ids := {1}\<rparr>)],
             task_type := AT_DET_BOX\<rparr>,
          image_cks := [(''a'', SingleImageCks0\<lparr>image_quality := 1\<rparr>)]\<rparr>)
   \<and> image_cks (fst (merge_annotations
       (MirAnnotations0\<lparr>prediction := SingleTaskAnnotations0
            \<lparr>image_annotations := [(''a'', SingleImageAnnotations0\<lparr>img_class_ids := {1}\<rparr>)],
             task_type := AT_DET_BOX\<rparr>,
          image_cks := [(''a'', SingleImageCks0\<lparr>image_quality := 1\<rparr>)]\<rparr>)
       (MirAnnotations0\<lparr>prediction := SingleTaskAnnotations0
            \<lparr>image_annotations := [(''a'', SingleImageAnnotations0\<lparr>img_class_ids := {2}\<rparr>)]\<rparr>,
          image_cks := [(''a'', SingleImageCks0\<lparr>image_quality := 2\<rparr>)]\<rparr>)
       ''stop''))
     = [(''a'', SingleImageCks0\<lparr>image_quality := 1\<rparr>)]"
  using merge_annotations_stop_conflict
    [of "(MirAnnotations0\<lparr>prediction := SingleTaskAnnotations0
            \<lparr>image_annotations := [(''a'', SingleImageAnnotations0\<lparr>img_class_ids := {1}\<rparr>)],
             task_type := AT_DET_BOX\<rparr>,
          image_cks := [(''a'', SingleImageCks0\<lparr>image_quality := 1\<rparr>)]\<rparr>)" "(MirAnnotations0\<lparr>prediction := SingleTaskAnnotations0
            \<lparr>image_annotations := [(''a'', SingleImageAnnotations0\<lparr>img_class_ids := {2}\<rparr>)]\<rparr>,
          image_cks := [(''a'', SingleImageCks0\<lparr>image_quality := 2\<rparr>)]\<rparr>)" "fst (merge_annotations
       (MirAnnotations0\<lparr>prediction := SingleTaskAnnotations0
            \<lparr>image_annotations := [(''a'', SingleImageAnnotations0\<lparr>img_class_ids := {1}\<rparr>)],
             task_type := AT_DET_BOX\<rparr>,
          image_cks := [(''a'', SingleImageCks0\<lparr>image_quality := 1\<rparr>)]\<rparr>)
       (MirAnnotations0\<lparr>prediction := SingleTaskAnnotations0
            \<lparr>image_annotations := [(''a'', SingleImageAnnotations0\<lparr>img_class_ids := {2}\<rparr>)]\<rparr>,
          image_cks := [(''a'', SingleImageCks0\<lparr>image_quality := 2\<rparr>)]\<rparr>)
       ''stop'')" "snd (merge_annotations
       (MirAnnotations0\<lparr>prediction := SingleTaskAnnotations0
            \<lparr>image_annotations := [(''a'', SingleImageAnnotations0\<lparr>img_class_ids := {1}\<rparr>)],
             task_type := AT_DET_BOX\<rparr>,
          image_cks := [(''a'', SingleImageCks0\<lparr>image_quality := 1\<rparr>)]\<rparr>)
       (MirAnnotations0\<lparr>prediction := SingleTaskAnnotations0
            \<lparr>image_annotations := [(''a'', SingleImageAnnotations0\<lparr>img_class_ids := {2}\<rparr>)]\<rparr>,
          image_cks := [(''a'', SingleImageCks0\<lparr>image_quality := 2\<rparr>)]\<rparr>)
       ''stop'')"]
  by (simp add: MirAnnotations0_def SingleTaskAnnotations0_def AT_UNKNOWN_def AT_DET_BOX_def)

text \<open>
  C3 as stated fails twice. With a joint asset id in the predictions and two different
  concrete types, the merge with strategy "stop" raises the type-mismatch error, not the
  merge-conflict one: the type check comes first. And with a host of unknown type and a
  detection-box guest, the merge fails with the merge-conflict error after it has changed
  the type of the host's prediction pair from unknown to detection-box.
\<close>

theorem merge_annotations_stop_conflict_counterexample:
  "fst ` set (image_annotations (prediction
       (MirAnnotations0\<lparr>prediction := SingleTaskAnnotations0
            \<lparr>image_annotations := [(''a'', SingleImageAnnotations0\<lparr>img_class_ids := {1}\<rparr>)],
             task_type := AT_DET_BOX\<rparr>,
          image_cks := [(''a'', SingleImageCks0\<lparr>image_quality := 1\<rparr>)]\<rparr>)))
     \<inter> fst ` set (image_annotations (prediction
       (MirAnnotations0\<lparr>prediction := SingleTaskAnnotations0
            \<lparr>image_annotations := [(''a'', SingleImageAnnotations0\<lparr>img_class_ids := {2}\<rparr>)],
             task_type := AT_SEG_MASK\<rparr>\<rparr>))) \<noteq> {}
   \<and> snd (merge_annotations
       (MirAnnotations0\<lparr>prediction := SingleTaskAnnotations0
            \<lparr>image_annotations := [(''a'', SingleImageAnnotations0\<lparr>img_class_ids := {1}\<rparr>)],
             task_type := AT_DET_BOX\<rparr>,
          image_cks := [(''a'', SingleImageCks0\<lparr>image_quality := 1\<rparr>)]\<rparr>)
       (MirAnnotations0\<lparr>prediction := SingleTaskAnnotations0
            \<lparr>image_annotations := [(''a'', SingleImageAnnotations0\<lparr>img_class_ids := {2}\<rparr>)],
             task_type := AT_SEG_MASK\<rparr>\<rparr>)
       ''stop'')
     = Some (MirRuntimeError RC_CMD_INVALID_ANNO_TYPE [''host and guest anno type mismatch''])
   \<and> fst ` set (image_annotations (prediction
       (MirAnnotations0\<lparr>prediction := SingleTaskAnnotations0
            \<lparr>image_annotations := [(''a'', SingleImageAnnotations0\<lparr>img_class_ids := {1}\<rparr>)]\<rparr>\<rparr>)))
     \<inter> fst ` set (image_annotations (prediction
       (MirAnnotations0\<lparr>prediction := SingleTaskAnnotations0
            \<lparr>image_annotations := [(''a'', SingleImageAnnotations0\<lparr>img_class_ids := {2}\<rparr>)],
             task_type := AT_DET_BOX\<rparr>\<rparr>))) \<noteq> {}
   \<and> snd (merge_annotations
       (MirAnnotations0\<lparr>prediction := SingleTaskAnnotations0
            \<lparr>image_annotations := [(''a'', SingleImageAnnotations0\<lparr>img_class_ids := {1}\<rparr>)]\<rparr>\<rparr>)
       (MirAnnotations0\<lparr>prediction := SingleTaskAnnotations0
            \<lparr>image_annotations := [(''a'', SingleImageAnnotations0\<lparr>img_class_ids := {2}\<rparr>)],
             task_type := AT_DET_BOX\<rparr>\<rparr>)
       ''stop'')
     = Some (MirRuntimeError RC_CMD_MERGE_ERROR [''found conflict annotations in strategy stop''])
   \<and> task_type (prediction
       (MirAnnotations0\<lparr>prediction := SingleTaskAnnotations0
            \<lparr>image_annotations := [(''a'', SingleImageAnnotations0\<lparr>img_class_ids := {1}\<rparr>)]\<rparr>\<rparr>)) = AT_UNKNOWN
   \<and> task_type (prediction (fst (merge_annotations
       (MirAnnotations0\<lparr>prediction := SingleTaskAnnotations0
            \<lparr>image_annotations := [(''a'', SingleImageAnnotations0\<lparr>img_class_ids := {1}\<rparr>)]\<rparr>\<rparr>)
       (MirAnnotations0\<lparr>prediction := SingleTaskAnnotations0
            \<lparr>image_annotations := [(''a'', SingleImageAnnotations0\<lparr>img_class_ids := {2}\<rparr>)],
             task_type := AT_DET_BOX\<rparr>\<rparr>)
       ''stop''))) = AT_DET_BOX
   \<and> AT_DET_BOX \<noteq> AT_UNKNOWN"
  by code_simp




text \<open>
  C5: merging two task annotation sets fails with the type-mismatch error when both
  types are concrete and differ (the target is left as it was); otherwise the type of the
  result is the host's type when that is not unknown, and the guest's type when it is,
  and the type-mismatch error is not raised.
\<close>

theorem merge_pair_annotations_type:
  "(task_type h \<noteq> AT_UNKNOWN \<and> task_type g \<noteq> AT_UNKNOWN \<and> task_type h \<noteq> task_type g \<longrightarrow>
      merge_pair_annotations h g t s =
        (t, Some (MirRuntimeError RC_CMD_INVALID_ANNO_TYPE [''host and guest anno type mismatch''])))
   \<and> (\<not> (task_type h \<noteq> AT_UNKNOWN \<and> task_type g \<noteq> AT_UNKNOWN \<and> task_type h \<noteq> task_type g) \<longrightarrow>
        task_type (fst (merge_pair_annotations h g t s))
          = (if task_type h \<noteq> AT_UNKNOWN then task_type h else task_type g)
        \<and> (\<forall>msg. snd (merge_pair_annotations h g t s)
                 \<noteq> Some (MirRuntimeError RC_CMD_INVALID_ANNO_TYPE msg)))"
  by (auto simp: merge_pair_annotations_def Let_def AT_UNKNOWN_def split: prod.splits)

theorem merge_pair_annotations_type_witness:
  "merge_pair_annotations
      (SingleTaskAnnotations0\<lparr>task_type := AT_DET_BOX\<rparr>)
      (SingleTaskAnnotations0\<lparr>task_type := AT_SEG_MASK\<rparr>)
      (SingleTaskAnnotations0\<lparr>task_type := AT_DET_BOX\<rparr>) ''host''
     = (SingleTaskAnnotations0\<lparr>task_type := AT_DET_BOX\<rparr>,
        Some (MirRuntimeError RC_CMD_INVALID_ANNO_TYPE [''host and guest anno type mismatch'']))
   \<and> task_type (fst (merge_pair_annotations SingleTaskAnnotations0
        (SingleTaskAnnotations0\<lparr>task_type := AT_SEG_MASK\<rparr>) SingleTaskAnnotations0 ''host''))
     = AT_SEG_MASK
   \<and> task_type (fst (merge_pair_annotations (SingleTaskAnnotations0\<lparr>task_type := AT_DET_BOX\<rparr>)
        SingleTaskAnnotations0 (SingleTaskAnnotations0\<lparr>task_type := AT_DET_BOX\<rparr>) ''host''))
     = AT_DET_BOX"
  using merge_pair_annotations_type
      [of "SingleTaskAnnotations0\<lparr>task_type := AT_DET_BOX\<rparr>"
          "SingleTaskAnnotations0\<lparr>task_type := AT_SEG_MASK\<rparr>"
          "SingleTaskAnnotations0\<lparr>task_type := AT_DET_BOX\<rparr>" "''host''"]
    merge_pair_annotations_type
      [of SingleTaskAnnotations0 "SingleTaskAnnotations0\<lparr>task_type := AT_SEG_MASK\<rparr>"
          SingleTaskAnnotations0 "''host''"]
    merge_pair_annotations_type
      [of "SingleTaskAnnotations0\<lparr>task_type := AT_DET_BOX\<rparr>" SingleTaskAnnotations0
          "SingleTaskAnnotations0\<lparr>task_type := AT_DET_BOX\<rparr>" "''host''"]
  by (simp add: SingleTaskAnnotations0_def AT_UNKNOWN_def AT_DET_BOX_def AT_SEG_MASK_def)


section \<open>Copying, filtering and sampling annotations\<close>

definition copy_annotations_pred_meta ::
  "SingleTaskAnnotations \<Rightarrow> SingleTaskAnnotations \<Rightarrow> SingleTaskAnnotations" where
  "copy_annotations_pred_meta src_task_annotations dst_task_annotations =
     dst_task_annotations
       \<lparr>eval_class_ids := eval_class_ids src_task_annotations,
        executor_config := executor_config src_task_annotations,
        model := model src_task_annotations\<rparr>"

text \<open>
  \<open>_change_annotations_type_ids\<close>: the boxes of every image and the evaluation class ids
  are sent through the table \<open>src_to_dst_ids\<close>; an id the table does not hold raises
  KeyError, an id sent to a negative number is dropped.
\<close>

fun change_boxes :: "(int \<rightharpoonup> int) \<Rightarrow> ObjectAnnotation list \<Rightarrow> error + ObjectAnnotation list" where
  "change_boxes src_to_dst_ids [] = Inr []"
| "change_boxes src_to_dst_ids (annotation # rest) =
     (case src_to_dst_ids (class_id annotation) of
        None \<Rightarrow> Inl KeyError
      | Some dst_class_id \<Rightarrow>
          (case change_boxes src_to_dst_ids rest of
             Inl e \<Rightarrow> Inl e
           | Inr dst_image_annotations \<Rightarrow>
               Inr (if 0 \<le> dst_class_id
                    then annotation\<lparr>class_id := dst_class_id\<rparr> # dst_image_annotations
                    else dst_image_annotations)))"

fun change_images ::
  "(int \<rightharpoonup> int) \<Rightarrow> (string \<times> SingleImageAnnotations) list
     \<Rightarrow> error + (string \<times> SingleImageAnnotations) list" where
  "change_images src_to_dst_ids [] = Inr []"
| "change_images src_to_dst_ids ((asset_id, single_image_annotations) # rest) =
     (case change_boxes src_to_dst_ids (boxes single_image_annotations) of
        Inl e \<Rightarrow> Inl e
      | Inr dst_image_annotations \<Rightarrow>
          (case change_images src_to_dst_ids rest of
             Inl e \<Rightarrow> Inl e
           | Inr r \<Rightarrow>
               Inr ((asset_id, single_image_annotations\<lparr>boxes := dst_image_annotations\<rparr>) # r)))"

fun change_eval_class_ids :: "(int \<rightharpoonup> int) \<Rightarrow> int list \<Rightarrow> error + int list" where
  "change_eval_class_ids src_to_dst_ids [] = Inr []"
| "change_eval_class_ids src_to_dst_ids (src_class_id # rest) =
     (case src_to_dst_ids src_class_id of
        None \<Rightarrow> Inl KeyError
      | Some dst_class_id \<Rightarrow>
          (case change_eval_class_ids src_to_dst_ids rest of
             Inl e \<Rightarrow> Inl e
           | Inr dst_eval_class_ids \<Rightarrow>
               Inr (if 0 \<le> dst_class_id then dst_class_id # dst_eval_class_ids
                    else dst_eval_class_ids)))"

definition change_annotations_type_ids ::
  "SingleTaskAnnotations \<Rightarrow> (int \<rightharpoonup> int) \<Rightarrow> error + SingleTaskAnnotations" where
  "change_annotations_type_ids single_task_annotations src_to_dst_ids =
     (case change_images src_to_dst_ids (image_annotations single_task_annotations) of
        Inl e \<Rightarrow> Inl e
      | Inr imgs \<Rightarrow>
          (case change_eval_class_ids src_to_dst_ids (eval_class_ids single_task_annotations) of
             Inl e \<Rightarrow> Inl e
           | Inr dst_eval_class_ids \<Rightarrow>
               Inr (single_task_annotations
                      \<lparr>image_annotations := imgs, eval_class_ids := dst_eval_class_ids\<rparr>)))"

text \<open>Reading a scalar protobuf map at a key it does not hold gives 0.\<close>

definition cnt_get :: "(int \<times> int) list \<Rightarrow> int \<Rightarrow> int" where
  "cnt_get m k = (case map_of m k of None \<Rightarrow> 0 | Some c \<Rightarrow> c)"

fun unknown_src_ids :: "(int \<rightharpoonup> int) \<Rightarrow> int list \<Rightarrow> error + int list" where
  "unknown_src_ids src_to_dst_ids [] = Inr []"
| "unknown_src_ids src_to_dst_ids (src_id # rest) =
     (case src_to_dst_ids src_id of
        None \<Rightarrow> Inl KeyError
      | Some dst \<Rightarrow>
          (case unknown_src_ids src_to_dst_ids rest of
             Inl e \<Rightarrow> Inl e
           | Inr r \<Rightarrow> Inr (if dst = -1 then src_id # r else r)))"

fun count_unknown_names ::
  "UserLabels \<Rightarrow> MirContext \<Rightarrow> int list \<Rightarrow> (string \<times> int) list
     \<Rightarrow> error + (string \<times> int) list" where
  "count_unknown_names src_class_id_mgr mir_context [] unknown_names_and_count =
     Inr unknown_names_and_count"
| "count_unknown_names src_class_id_mgr mir_context (src_id # rest) unknown_names_and_count =
     (case main_name_for_id src_class_id_mgr src_id of
        Inl e \<Rightarrow> Inl e
      | Inr name \<Rightarrow>
          (let cnt_gt = cnt_get (class_ids_cnt (pred_stats mir_context)) src_id;
               cnt_pred = cnt_get (class_ids_cnt (gt_stats mir_context)) src_id
           in count_unknown_names src_class_id_mgr mir_context rest
                (AList.update name (cnt_gt + cnt_pred) unknown_names_and_count)))"

definition gen_unknown_names_and_count ::
  "UserLabels \<Rightarrow> MirContext \<Rightarrow> (int \<rightharpoonup> int) \<Rightarrow> error + (string \<times> int) list" where
  "gen_unknown_names_and_count src_class_id_mgr mir_context src_to_dst_ids =
     (let all_src_class_ids =
            remdups (keys (class_ids_cnt (pred_stats mir_context))
                     @ keys (class_ids_cnt (gt_stats mir_context)))
      in case unknown_src_ids src_to_dst_ids all_src_class_ids of
           Inl e \<Rightarrow> Inl e
         | Inr unknown_src_class_ids \<Rightarrow>
             if unknown_src_class_ids = [] then Inr []
             else count_unknown_names src_class_id_mgr mir_context unknown_src_class_ids [])"

text \<open>
  \<open>copy_annotations\<close> mutates the annotation set and returns the names without a
  counterpart; the model returns the annotation set as the call leaves it with the names.
\<close>

definition copy_annotations ::
  "(string \<Rightarrow> UserLabels) \<Rightarrow> MirAnnotations \<Rightarrow> MirContext \<Rightarrow> string \<Rightarrow> string
     \<Rightarrow> error + (MirAnnotations \<times> (string \<times> int) list)" where
  "copy_annotations load_or_create_userlabels mir_annotations mir_context
       data_label_storage_file label_storage_file =
     (if data_label_storage_file = label_storage_file
         \<or> (length (image_annotations (prediction mir_annotations)) = 0
             \<and> length (image_annotations (ground_truth mir_annotations)) = 0)
      then Inr (mir_annotations, [])
      else
        let src_class_id_mgr = load_or_create_userlabels data_label_storage_file;
            dst_class_id_mgr = load_or_create_userlabels label_storage_file;
            src_to_dst_ids =
              fold (\<lambda>n m. m(fst (id_and_main_name_for_name src_class_id_mgr n)
                             \<mapsto> fst (id_and_main_name_for_name dst_class_id_mgr n)))
                   (all_main_names src_class_id_mgr) Map.empty
        in case change_annotations_type_ids (prediction mir_annotations) src_to_dst_ids of
             Inl e \<Rightarrow> Inl e
           | Inr p \<Rightarrow>
               (case change_annotations_type_ids (ground_truth mir_annotations) src_to_dst_ids of
                  Inl e \<Rightarrow> Inl e
                | Inr g \<Rightarrow>
                    (case gen_unknown_names_and_count src_class_id_mgr mir_context
                            src_to_dst_ids of
                       Inl e \<Rightarrow> Inl e
                     | Inr unknown \<Rightarrow>
                         Inr (mir_annotations\<lparr>prediction := p, ground_truth := g\<rparr>, unknown))))"

definition gen_filter_task_annotations ::
  "SingleTaskAnnotations \<Rightarrow> SingleTaskAnnotations \<Rightarrow> string set \<Rightarrow> SingleTaskAnnotations" where
  "gen_filter_task_annotations src_task_annotations dst_task_annotations asset_ids =
     (let joint_ids = filter (\<lambda>a. a \<in> asset_ids) (keys (image_annotations src_task_annotations))
      in dst_task_annotations
           \<lparr>task_type := task_type src_task_annotations,
            image_annotations :=
              copy_entries SingleImageAnnotations0 joint_ids
                (image_annotations src_task_annotations)
                (image_annotations dst_task_annotations)\<rparr>)"

definition filter_annotations :: "MirAnnotations \<Rightarrow> string set \<Rightarrow> MirAnnotations" where
  "filter_annotations mir_annotations asset_ids_set =
     (let matched_mir_annotations = MirAnnotations0;
          gt = gen_filter_task_annotations (ground_truth mir_annotations)
                 (ground_truth matched_mir_annotations) asset_ids_set;
          pred = gen_filter_task_annotations (prediction mir_annotations)
                   (prediction matched_mir_annotations) asset_ids_set;
          image_ck_asset_ids = filter (\<lambda>a. a \<in> asset_ids_set) (keys (image_cks mir_annotations));
          matched_cks = copy_entries SingleImageCks0 image_ck_asset_ids
                          (image_cks mir_annotations) (image_cks matched_mir_annotations)
      in matched_mir_annotations
           \<lparr>prediction := copy_annotations_pred_meta (prediction mir_annotations) pred,
            ground_truth := gt,
            image_cks := matched_cks\<rparr>)"

text \<open>The body of the loop of \<open>sampling_annotations\<close>, for one sampled asset id.\<close>

definition sampling_step :: "MirAnnotations \<Rightarrow> string \<Rightarrow> MirAnnotations \<Rightarrow> MirAnnotations" where
  "sampling_step mir_annotations asset_id sampled_mir_annotations =
     (let s1 = (if map_of (image_annotations (prediction mir_annotations)) asset_id \<noteq> None
                then sampled_mir_annotations
                       \<lparr>prediction := (prediction sampled_mir_annotations)
                          \<lparr>image_annotations :=
                             copy_entries SingleImageAnnotations0 [asset_id]
                               (image_annotations (prediction mir_annotations))
                               (image_annotations (prediction sampled_mir_annotations))\<rparr>\<rparr>
                else sampled_mir_annotations)
      in if map_of (image_annotations (ground_truth mir_annotations)) asset_id \<noteq> None
         then s1\<lparr>ground_truth := (ground_truth s1)
                   \<lparr>image_annotations :=
                      copy_entries SingleImageAnnotations0 [asset_id]
                        (image_annotations (ground_truth mir_annotations))
                        (image_annotations (ground_truth s1))\<rparr>\<rparr>
         else s1)"

definition sampling_annotations :: "MirAnnotations \<Rightarrow> string list \<Rightarrow> MirAnnotations" where
  "sampling_annotations mir_annotations sampled_asset_ids =
     (let s = fold (sampling_step mir_annotations) sampled_asset_ids MirAnnotations0;
          s1 = s\<lparr>prediction := (prediction s)\<lparr>task_type := task_type (prediction mir_annotations)\<rparr>\<rparr>;
          s2 = s1\<lparr>ground_truth :=
                   (ground_truth s1)\<lparr>task_type := task_type (ground_truth mir_annotations)\<rparr>\<rparr>
      in s2\<lparr>prediction := copy_annotations_pred_meta (prediction mir_annotations) (prediction s2)\<rparr>)"

section \<open>Properties of copying, filtering and sampling\<close>

text \<open>
  C6: when the two label files are the same path, or when the annotation set holds no
  image annotations in its predictions and in its ground truth, copy_annotations returns
  the empty map of unknown names and leaves the annotation set as it was.
\<close>

theorem copy_annotations_identity:
  assumes "data_label_storage_file = label_storage_file
           \<or> (image_annotations (prediction mir_annotations) = []
               \<and> image_annotations (ground_truth mir_annotations) = [])"
  shows "copy_annotations load_or_create_userlabels mir_annotations mir_context
           data_label_storage_file label_storage_file = Inr (mir_annotations, [])"
  using assms by (auto simp: copy_annotations_def)

theorem copy_annotations_identity_witness:
  "copy_annotations (\<lambda>f. [])
      (MirAnnotations0\<lparr>prediction := SingleTaskAnnotations0
         \<lparr>image_annotations := [(''a'', SingleImageAnnotations0)]\<rparr>\<rparr>)
      \<lparr>pred_stats = \<lparr>class_ids_cnt = [(0, 1)]\<rparr>, gt_stats = \<lparr>class_ids_cnt = []\<rparr>\<rparr>
      ''labels.yaml'' ''labels.yaml''
     = Inr (MirAnnotations0\<lparr>prediction := SingleTaskAnnotations0
              \<lparr>image_annotations := [(''a'', SingleImageAnnotations0)]\<rparr>\<rparr>, [])
   \<and> copy_annotations (\<lambda>f. []) MirAnnotations0
      \<lparr>pred_stats = \<lparr>class_ids_cnt = []\<rparr>, gt_stats = \<lparr>class_ids_cnt = []\<rparr>\<rparr>
      ''src/labels.yaml'' ''dst/labels.yaml''
     = Inr (MirAnnotations0, [])"
  using copy_annotations_identity
    [of "''labels.yaml''" "''labels.yaml''"
        "MirAnnotations0\<lparr>prediction := SingleTaskAnnotations0
           \<lparr>image_annotations := [(''a'', SingleImageAnnotations0)]\<rparr>\<rparr>"
        "\<lambda>f. []"
        "\<lparr>pred_stats = \<lparr>class_ids_cnt = [(0, 1)]\<rparr>, gt_stats = \<lparr>class_ids_cnt = []\<rparr>\<rparr>"]
    copy_annotations_identity
    [of "''src/labels.yaml''" "''dst/labels.yaml''" MirAnnotations0 "\<lambda>f. []"
        "\<lparr>pred_stats = \<lparr>class_ids_cnt = []\<rparr>, gt_stats = \<lparr>class_ids_cnt = []\<rparr>\<rparr>"]
  by (simp add: MirAnnotations0_def SingleTaskAnnotations0_def)

lemma image_cks_sampling_step:
  "image_cks (sampling_step mir_annotations asset_id s) = image_cks s"
  by (simp add: sampling_step_def Let_def)

lemma image_cks_fold_sampling_step:
  "image_cks (fold (sampling_step mir_annotations) ids s) = image_cks s"
  by (induction ids arbitrary: s) (simp_all add: image_cks_sampling_step)

lemma map_of_copy_entries_selected:
  "map_of (copy_entries d (filter (\<lambda>a. a \<in> S) (keys m)) m []) a
     = (if a \<in> S then map_of m a else None)"
proof (cases "map_of m a")
  case None
  then have "a \<notin> fst ` set m"
    by (simp add: map_of_eq_None_iff)
  with None show ?thesis
    by (simp add: map_of_copy_entries set_keys)
next
  case (Some v)
  then have "a \<in> fst ` set m"
    by (metis domI dom_map_of_conv_image_fst)
  with Some show ?thesis
    by (simp add: map_of_copy_entries set_keys)
qed

text \<open>
  C9: the annotation set returned by sampling_annotations has no image custom keys,
  whatever the input annotation set and the sampled asset ids; filter_annotations gives
  every selected asset the custom keys it has in the input, and no others.
\<close>

theorem sampling_annotations_image_cks:
  "image_cks (sampling_annotations mir_annotations sampled_asset_ids) = []
   \<and> map_of (image_cks (filter_annotations mir_annotations asset_ids_set)) a
       = (if a \<in> asset_ids_set then map_of (image_cks mir_annotations) a else None)"
proof
  show "image_cks (sampling_annotations mir_annotations sampled_asset_ids) = []"
    by (simp add: sampling_annotations_def Let_def image_cks_fold_sampling_step
          MirAnnotations0_def)
next
  show "map_of (image_cks (filter_annotations mir_annotations asset_ids_set)) a
       = (if a \<in> asset_ids_set then map_of (image_cks mir_annotations) a else None)"
    by (simp add: filter_annotations_def Let_def map_of_copy_entries_selected
          MirAnnotations0_def)
qed

theorem sampling_annotations_image_cks_witness:
  "image_cks (sampling_annotations
       (MirAnnotations0\<lparr>image_cks := [(''a'', SingleImageCks0\<lparr>image_quality := 1\<rparr>)]\<rparr>) [''a'']) = []
   \<and> map_of (image_cks (filter_annotations
       (MirAnnotations0\<lparr>image_cks := [(''a'', SingleImageCks0\<lparr>image_quality := 1\<rparr>)]\<rparr>) {''a''})) ''a''
     = Some (SingleImageCks0\<lparr>image_quality := 1\<rparr>)"
  using sampling_annotations_image_cks
    [of "MirAnnotations0\<lparr>image_cks := [(''a'', SingleImageCks0\<lparr>image_quality := 1\<rparr>)]\<rparr>"
        "[''a'']" "{''a''}" "''a''"]
  by (simp add: MirAnnotations0_def)

section \<open>The labelmap of a segmentation-mask import\<close>

text \<open>
  \<open>str.strip()\<close>, \<open>str.split(sep)\<close> and \<open>int(text)\<close> on ASCII text. White space is the set
  of characters \<open>str.strip()\<close> removes; \<open>int\<close> takes an optional sign and decimal digits, with
  single underscores between digits, and raises ValueError on anything else.
\<close>

definition is_space :: "char \<Rightarrow> bool" where
  "is_space c = (let n = (of_char c :: nat) in (9 \<le> n \<and> n \<le> 13) \<or> (28 \<le> n \<and> n \<le> 32))"

definition strip :: "string \<Rightarrow> string" where
  "strip s = rev (dropWhile is_space (rev (dropWhile is_space s)))"

fun split_on :: "char \<Rightarrow> string \<Rightarrow> string list" where
  "split_on sep [] = [[]]"
| "split_on sep (c # cs) =
     (if c = sep then [] # split_on sep cs
      else (case split_on sep cs of [] \<Rightarrow> [[c]] | w # ws \<Rightarrow> (c # w) # ws))"

definition is_digit :: "char \<Rightarrow> bool" where
  "is_digit c = (let n = (of_char c :: nat) in 48 \<le> n \<and> n \<le> 57)"

fun digits_ok :: "string \<Rightarrow> bool" where
  "digits_ok [] = False"
| "digits_ok [c] = is_digit c"
| "digits_ok (c # d # r) =
     (is_digit c \<and> (if d = CHR ''_'' then digits_ok r else digits_ok (d # r)))"

definition digits_value :: "string \<Rightarrow> int" where
  "digits_value ds =
     fold (\<lambda>c n. 10 * n + (int (of_char c) - 48)) (filter (\<lambda>c. c \<noteq> CHR ''_'') ds) 0"

definition int_of_str :: "string \<Rightarrow> error + int" where
  "int_of_str text =
     (case strip text of
        [] \<Rightarrow> Inl ValueError
      | c # r \<Rightarrow>
          (let body = (if c = CHR ''-'' \<or> c = CHR ''+'' then r else c # r)
           in if digits_ok body
              then Inr (if c = CHR ''-'' then - digits_value body else digits_value body)
              else Inl ValueError))"

fun ints_of_strs :: "string list \<Rightarrow> error + int list" where
  "ints_of_strs [] = Inr []"
| "ints_of_strs (x # xs) =
     (case int_of_str x of
        Inl e \<Rightarrow> Inl e
      | Inr n \<Rightarrow> (case ints_of_strs xs of Inl e \<Rightarrow> Inl e | Inr ns \<Rightarrow> Inr (n # ns)))"

text \<open>
  \<open>pos_ints == (0, 0, 0)\<close> compares a list with a tuple: in Python a list is never equal
  to a tuple, whatever they hold.
\<close>

definition list_eq_tuple :: "int list \<Rightarrow> color \<Rightarrow> bool" where
  "list_eq_tuple pos_ints t = False"

text \<open>
  The loop of \<open>_parse_labelmap\<close> over the lines of the file, with the table built so far.
  A dictionary keeps the order in which its keys were first written.
\<close>

fun parse_records ::
  "UserLabels \<Rightarrow> string list \<Rightarrow> (string \<times> color) list \<Rightarrow> error + (string \<times> color) list" where
  "parse_records class_type_manager [] map_cname_color = Inr map_cname_color"
| "parse_records class_type_manager (line # records) map_cname_color =
     (let record = strip line in
      if CHR '':'' \<notin> set record \<or> record = [] then
        parse_records class_type_manager records map_cname_color
      else
        let record_split = split_on CHR '':'' record in
        if length record_split \<noteq> 4 then
          parse_records class_type_manager records map_cname_color
        else
          (case ints_of_strs (split_on CHR '','' (record_split ! 1)) of
             Inl e \<Rightarrow> Inl e
           | Inr ints \<Rightarrow>
               (let pos_ints = (if length ints = 1 then [ints ! 0, ints ! 0, ints ! 0] else ints) in
                if length pos_ints \<noteq> 3 then
                  parse_records class_type_manager records map_cname_color
                else if list_eq_tuple pos_ints (0, 0, 0) then
                  parse_records class_type_manager records map_cname_color
                else
                  (case id_and_main_name_for_name class_type_manager (record_split ! 0) of
                     (cid, cname) \<Rightarrow>
                       parse_records class_type_manager records
                         (AList.update cname (pos_ints ! 0, pos_ints ! 1, pos_ints ! 2)
                            map_cname_color)))))"

text \<open>
  \<open>_parse_labelmap\<close>: the file is given by its lines, \<open>None\<close> when \<open>labelmap.txt\<close> is not a
  file.
\<close>

definition parse_labelmap ::
  "string list option \<Rightarrow> UserLabels \<Rightarrow> error + (string \<times> color) list" where
  "parse_labelmap label_map_file class_type_manager =
     (case label_map_file of
        None \<Rightarrow> Inl (MirRuntimeError RC_CMD_INVALID_ARGS [''labelmap.txt is required.''])
      | Some records \<Rightarrow> parse_records class_type_manager records [])"


section \<open>Importing annotations\<close>

datatype UnknownTypesStrategy = STOP | IGNORE | ADD

text \<open>
  What an annotation directory holds, as far as the importers read it. An XML file is
  empty, or not a document with an \<open>annotation\<close> root (the parse raises), or the parsed
  dictionary under that root. A mask file is one that cannot be opened as an image, an
  image of another format than PNG, or the RGB pixels of a PNG. \<open>meta.yaml\<close> is a file
  that does not load as a dictionary, or the three keys of the dictionary.
\<close>

record annos_dict =
  ad_cks :: "(string \<times> string) list"
  ad_image_quality :: "rat option"
  ad_objects :: "object_dict list"

datatype xml_file = XmlEmpty | XmlInvalid | XmlAnnotation annos_dict

datatype mask_file = MaskUnidentified | MaskOtherFormat | MaskPng "color list list"

datatype meta_file =
    MetaInvalid
  | MetaDict "ModelMeta option" "string list option" "string option"

record annotations_dir =
  segmentation_class_isdir :: bool
  labelmap_txt :: "string list option"
  xml_files :: "(string \<times> xml_file) list"
  png_files :: "(string \<times> mask_file) list"
  meta_yaml :: "meta_file option"

text \<open>
  The state an importer works on: the image custom keys of \<open>mir_annotation\<close> (the only part
  of it the importers write besides the task they are given), the registry, the names
  accumulated so far and the task annotations to fill. An importer that raises leaves no
  state: the import is abandoned.
\<close>

record import_state =
  st_image_cks :: "(string \<times> SingleImageCks) list"
  st_class_type_manager :: UserLabels
  st_accu_new_class_names :: "(string \<times> int) list"
  st_image_annotations :: SingleTaskAnnotations

text \<open>\<open>m[k]\<close> on a protobuf map of messages: the entry, or the default message.\<close>

definition entry_of :: "'v \<Rightarrow> ('k \<times> 'v) list \<Rightarrow> 'k \<Rightarrow> 'v" where
  "entry_of dflt m k = (case map_of m k of None \<Rightarrow> dflt | Some v \<Rightarrow> v)"

subsection \<open>The box importer over a directory\<close>

text \<open>
  The state of the loop over the objects of one XML file: registry, accumulated names,
  the boxes appended so far to the image's entry, \<open>anno_idx\<close> and \<open>img_class_ids\<close>.
\<close>

record object_loop =
  ol_class_type_manager :: UserLabels
  ol_accu_new_class_names :: "(string \<times> int) list"
  ol_boxes :: "ObjectAnnotation list"
  ol_anno_idx :: nat
  ol_img_class_ids :: "int set"

definition import_object :: "bool \<Rightarrow> object_dict \<Rightarrow> object_loop \<Rightarrow> error + object_loop" where
  "import_object add_if_not_found od s =
     (case od_name od of
        None \<Rightarrow> Inl KeyError
      | Some name \<Rightarrow>
          (case id_and_main_name_for_name (ol_class_type_manager s) name of
             (cid0, new_type_name) \<Rightarrow>
               (let s1 =
                      (if map_of (ol_accu_new_class_names s) new_type_name \<noteq> None then
                         (cid0, s\<lparr>ol_accu_new_class_names :=
                                    AList.update new_type_name
                                      (entry_of 0 (ol_accu_new_class_names s) new_type_name + 1)
                                      (ol_accu_new_class_names s)\<rparr>)
                       else if cid0 < 0 then
                         (let added = (if add_if_not_found
                                       then (case add_main_name (ol_class_type_manager s)
                                                    new_type_name of
                                               (reg, (new_cid, n)) \<Rightarrow> (new_cid, reg))
                                       else (cid0, ol_class_type_manager s))
                          in (fst added,
                              s\<lparr>ol_class_type_manager := snd added,
                                ol_accu_new_class_names :=
                                  AList.update new_type_name 0 (ol_accu_new_class_names s)\<rparr>))
                       else (cid0, s))
                in case s1 of
                     (cid, s2) \<Rightarrow>
                       if 0 \<le> cid then
                         (case object_dict_to_annotation od cid of
                            Inl e \<Rightarrow> Inl e
                          | Inr annotation \<Rightarrow>
                              Inr (s2\<lparr>ol_boxes :=
                                        ol_boxes s2 @ [annotation\<lparr>index := ol_anno_idx s2\<rparr>],
                                      ol_anno_idx := ol_anno_idx s2 + 1,
                                      ol_img_class_ids := insert cid (ol_img_class_ids s2)\<rparr>))
                       else Inr s2)))"

fun import_objects :: "bool \<Rightarrow> object_dict list \<Rightarrow> object_loop \<Rightarrow> error + object_loop" where
  "import_objects add_if_not_found [] s = Inr s"
| "import_objects add_if_not_found (od # objects) s =
     (case import_object add_if_not_found od s of
        Inl e \<Rightarrow> Inl e
      | Inr s' \<Rightarrow> import_objects add_if_not_found objects s')"

text \<open>
  One asset of \<open>map_hashed_filename\<close> in \<open>_import_annotations_voc_xml\<close>; \<open>task_class_ids\<close> is
  the set collected over the assets.
\<close>

definition import_voc_asset ::
  "annotations_dir \<Rightarrow> bool \<Rightarrow> string \<times> string \<Rightarrow> import_state \<times> int set
     \<Rightarrow> error + (import_state \<times> int set)" where
  "import_voc_asset dir add_if_not_found asset st =
     (case asset of (asset_hash, main_file_name) \<Rightarrow>
      case st of (s, task_cids) \<Rightarrow>
        (case map_of (xml_files dir) main_file_name of
           None \<Rightarrow> Inr st
         | Some XmlEmpty \<Rightarrow> Inr st
         | Some XmlInvalid \<Rightarrow> Inl ExpatError
         | Some (XmlAnnotation ad) \<Rightarrow>
             (let ck0 = entry_of SingleImageCks0 (st_image_cks s) asset_hash;
                  ck1 = (if ad_cks ad \<noteq> [] then ck0\<lparr>cks := cks ck0 ++ map_of (ad_cks ad)\<rparr>
                         else ck0);
                  ck2 = ck1\<lparr>image_quality :=
                               (case ad_image_quality ad of None \<Rightarrow> -1 | Some q \<Rightarrow> q)\<rparr>;
                  img0 = entry_of SingleImageAnnotations0
                           (image_annotations (st_image_annotations s)) asset_hash
              in case import_objects add_if_not_found (ad_objects ad)
                        \<lparr>ol_class_type_manager = st_class_type_manager s,
                         ol_accu_new_class_names = st_accu_new_class_names s,
                         ol_boxes = boxes img0, ol_anno_idx = 0, ol_img_class_ids = {}\<rparr> of
                   Inl e \<Rightarrow> Inl e
                 | Inr l \<Rightarrow>
                     Inr (s\<lparr>st_image_cks := AList.update asset_hash ck2 (st_image_cks s),
                            st_class_type_manager := ol_class_type_manager l,
                            st_accu_new_class_names := ol_accu_new_class_names l,
                            st_image_annotations := (st_image_annotations s)
                              \<lparr>image_annotations :=
                                 AList.update asset_hash
                                   (img0\<lparr>boxes := ol_boxes l,
                                         img_class_ids := ol_img_class_ids l\<rparr>)
                                   (image_annotations (st_image_annotations s))\<rparr>\<rparr>,
                          task_cids \<union> ol_img_class_ids l))))"

fun import_voc_assets ::
  "annotations_dir \<Rightarrow> bool \<Rightarrow> (string \<times> string) list \<Rightarrow> import_state \<times> int set
     \<Rightarrow> error + (import_state \<times> int set)" where
  "import_voc_assets dir add_if_not_found [] st = Inr st"
| "import_voc_assets dir add_if_not_found (asset # assets) st =
     (case import_voc_asset dir add_if_not_found asset st of
        Inl e \<Rightarrow> Inl e
      | Inr st' \<Rightarrow> import_voc_assets dir add_if_not_found assets st')"

definition import_annotations_voc_xml ::
  "(string \<times> string) list \<Rightarrow> annotations_dir \<Rightarrow> UnknownTypesStrategy \<Rightarrow> import_state
     \<Rightarrow> error + import_state" where
  "import_annotations_voc_xml map_hashed_filename dir unknown_types_strategy s =
     (let add_if_not_found = (unknown_types_strategy = ADD)
      in case import_voc_assets dir add_if_not_found map_hashed_filename (s, {}) of
           Inl e \<Rightarrow> Inl e
         | Inr (s', task_cids) \<Rightarrow>
             Inr (s'\<lparr>st_image_annotations :=
                      (st_image_annotations s')\<lparr>task_class_ids := task_cids\<rparr>\<rparr>))"

subsection \<open>The segmentation-mask importer\<close>

text \<open>
  The loop that builds the color map: every name of the labelmap goes into the
  accumulated names; a name with a non-negative id gets its color in \<open>map_id_color\<close> and
  in \<open>map_color_cid\<close>.
\<close>

definition build_color_step ::
  "UserLabels \<Rightarrow> string \<times> color
     \<Rightarrow> (string \<times> int) list \<times> (int \<rightharpoonup> color) \<times> (color \<times> int) list
     \<Rightarrow> (string \<times> int) list \<times> (int \<rightharpoonup> color) \<times> (color \<times> int) list" where
  "build_color_step class_type_manager item st =
     (case item of (name, color) \<Rightarrow>
      case st of (accu_new_class_names, id_color, map_color_cid) \<Rightarrow>
      case id_and_main_name_for_name class_type_manager name of (cid, cname) \<Rightarrow>
        (let accu1 = (if map_of accu_new_class_names cname = None
                      then AList.update cname 0 accu_new_class_names
                      else accu_new_class_names)
         in if 0 \<le> cid
            then (accu1, id_color(cid \<mapsto> color), AList.update color cid map_color_cid)
            else (accu1, id_color, map_color_cid)))"

text \<open>
  One color of \<open>map_color_cid\<close> on one mask: where the image has the color, the new mask
  gets it, and the class id is recorded when the color occurs at all.
\<close>

definition mask_color_step ::
  "color list list \<Rightarrow> color \<times> int \<Rightarrow> color list list \<times> int set \<Rightarrow> color list list \<times> int set" where
  "mask_color_step img item st =
     (case item of (color, cid) \<Rightarrow>
      case st of (np_mask, img_cids) \<Rightarrow>
        if list_ex (list_ex (\<lambda>p. p = color)) img
        then (map2 (\<lambda>row mrow. map2 (\<lambda>p q. if p = color then color else q) row mrow)
                img np_mask,
              insert cid img_cids)
        else (np_mask, img_cids))"

definition import_mask_asset ::
  "annotations_dir \<Rightarrow> (color \<times> int) list \<Rightarrow> string \<times> string \<Rightarrow> SingleTaskAnnotations
     \<Rightarrow> SingleTaskAnnotations" where
  "import_mask_asset dir map_color_cid asset image_annotations_task =
     (case asset of (asset_hash, main_file_name) \<Rightarrow>
      if \<not> segmentation_class_isdir dir then image_annotations_task
      else
        (case map_of (png_files dir) main_file_name of
           None \<Rightarrow> image_annotations_task
         | Some MaskUnidentified \<Rightarrow> image_annotations_task
         | Some MaskOtherFormat \<Rightarrow> image_annotations_task
         | Some (MaskPng img) \<Rightarrow>
             (case fold (mask_color_step img) map_color_cid
                     (map (map (\<lambda>p. (0, 0, 0))) img, {}) of
                (np_mask, img_cids) \<Rightarrow>
                  (let img0 = entry_of SingleImageAnnotations0
                                (image_annotations image_annotations_task) asset_hash
                   in image_annotations_task
                        \<lparr>image_annotations :=
                           AList.update asset_hash
                             (img0\<lparr>masks := masks img0 @ [\<lparr>semantic_mask = np_mask\<rparr>],
                                   img_class_ids := img_cids\<rparr>)
                             (image_annotations image_annotations_task)\<rparr>))))"

definition import_annotations_seg_mask ::
  "(string \<times> string) list \<Rightarrow> annotations_dir \<Rightarrow> UnknownTypesStrategy \<Rightarrow> import_state
     \<Rightarrow> error + import_state" where
  "import_annotations_seg_mask map_hashed_filename dir unknown_types_strategy s =
     (case parse_labelmap (labelmap_txt dir) (st_class_type_manager s) of
        Inl e \<Rightarrow> Inl e
      | Inr map_cname_color \<Rightarrow>
          (let class_type_manager =
                 (if unknown_types_strategy = ADD
                  then add_main_names (st_class_type_manager s) (map fst map_cname_color)
                  else st_class_type_manager s)
           in case fold (build_color_step class_type_manager) map_cname_color
                     (st_accu_new_class_names s,
                      map_id_color (st_image_annotations s), []) of
                (accu_new_class_names, id_color, map_color_cid) \<Rightarrow>
                  Inr (s\<lparr>st_class_type_manager := class_type_manager,
                         st_accu_new_class_names := accu_new_class_names,
                         st_image_annotations :=
                           fold (import_mask_asset dir map_color_cid) map_hashed_filename
                             ((st_image_annotations s)\<lparr>map_id_color := id_color\<rparr>)\<rparr>)))"

subsection \<open>The import of the two directories\<close>

definition annotation_parse_func ::
  "int \<Rightarrow> error + ((string \<times> string) list \<Rightarrow> annotations_dir \<Rightarrow> UnknownTypesStrategy
                     \<Rightarrow> import_state \<Rightarrow> error + import_state)" where
  "annotation_parse_func anno_type =
     (if anno_type = AT_DET_BOX then Inr import_annotations_voc_xml
      else if anno_type = AT_SEG_POLYGON then Inr import_annotations_voc_xml
      else if anno_type = AT_SEG_MASK then Inr import_annotations_seg_mask
      else Inl NotImplementedError)"

definition import_annotations_from_dir ::
  "(string \<times> string) list \<Rightarrow> annotations_dir \<Rightarrow> UnknownTypesStrategy \<Rightarrow> int \<Rightarrow> import_state
     \<Rightarrow> error + import_state" where
  "import_annotations_from_dir map_hashed_filename dir unknown_types_strategy anno_type0 s =
     (let anno_type = (if segmentation_class_isdir dir \<and> labelmap_txt dir \<noteq> None
                       then AT_SEG_MASK else anno_type0);
          s1 = s\<lparr>st_image_annotations := (st_image_annotations s)\<lparr>task_type := anno_type\<rparr>\<rparr>
      in case annotation_parse_func anno_type of
           Inl e \<Rightarrow> Inl e
         | Inr parse \<Rightarrow> parse map_hashed_filename dir unknown_types_strategy s1)"

definition import_annotation_meta ::
  "UserLabels \<Rightarrow> annotations_dir \<Rightarrow> SingleTaskAnnotations \<Rightarrow> error + SingleTaskAnnotations" where
  "import_annotation_meta class_type_manager dir task_annotations =
     (case meta_yaml dir of
        None \<Rightarrow> Inr task_annotations
      | Some MetaInvalid \<Rightarrow>
          Inl (MirRuntimeError RC_CMD_INVALID_META_YAML_FILE [''Invalid meta.yaml''])
      | Some (MetaDict meta_model meta_eval_class_names meta_executor_config) \<Rightarrow>
          (let t1 = (case meta_model of None \<Rightarrow> task_annotations
                     | Some m \<Rightarrow> task_annotations\<lparr>model := m\<rparr>);
               eval_class_names =
                 (case meta_eval_class_names of
                    None \<Rightarrow> class_names (model t1)
                  | Some names \<Rightarrow> if names = [] then class_names (model t1) else names);
               t2 = t1\<lparr>eval_class_ids :=
                         remdups (fst (id_for_names class_type_manager eval_class_names))\<rparr>
           in Inr (case meta_executor_config of None \<Rightarrow> t2
                   | Some c \<Rightarrow> t2\<lparr>executor_config := c\<rparr>)))"

text \<open>
  \<open>import_annotations\<close>: a directory path that is empty is \<open>None\<close>. The result is the
  annotation set and the registry as the call leaves them, with the map it returns.
\<close>

definition import_annotations ::
  "MirAnnotations \<Rightarrow> UserLabels \<Rightarrow> annotations_dir option \<Rightarrow> annotations_dir option
     \<Rightarrow> (string \<times> string) list \<Rightarrow> UnknownTypesStrategy \<Rightarrow> int
     \<Rightarrow> error + (MirAnnotations \<times> UserLabels \<times> (string \<times> int) list)" where
  "import_annotations mir_annotation class_type_manager prediction_dir groundtruth_dir
       map_hashed_filename unknown_types_strategy anno_type =
     (let s0 = \<lparr>st_image_cks = image_cks mir_annotation,
                st_class_type_manager = class_type_manager,
                st_accu_new_class_names = [],
                st_image_annotations = prediction mir_annotation\<rparr>;
          after_prediction =
            (case prediction_dir of
               None \<Rightarrow> Inr s0
             | Some dir \<Rightarrow>
                 (case import_annotations_from_dir map_hashed_filename dir
                         unknown_types_strategy anno_type s0 of
                    Inl e \<Rightarrow> Inl e
                  | Inr s1 \<Rightarrow>
                      (case import_annotation_meta (st_class_type_manager s1) dir
                              (st_image_annotations s1) of
                         Inl e \<Rightarrow> Inl e
                       | Inr t \<Rightarrow> Inr (s1\<lparr>st_image_annotations := t\<rparr>))))
      in case after_prediction of
           Inl e \<Rightarrow> Inl e
         | Inr sp \<Rightarrow>
             (case (case groundtruth_dir of
                      None \<Rightarrow> Inr (sp\<lparr>st_image_annotations := ground_truth mir_annotation\<rparr>)
                    | Some dir \<Rightarrow>
                        import_annotations_from_dir map_hashed_filename dir
                          unknown_types_strategy anno_type
                          (sp\<lparr>st_image_annotations := ground_truth mir_annotation\<rparr>)) of
                Inl e \<Rightarrow> Inl e
              | Inr sg \<Rightarrow>
                  if unknown_types_strategy = STOP \<and> st_accu_new_class_names sg \<noteq> [] then
                    Inl (MirRuntimeError RC_CMD_UNKNOWN_TYPES
                           (map fst (st_accu_new_class_names sg)))
                  else
                    Inr (\<lparr>prediction = st_image_annotations sp,
                          ground_truth = st_image_annotations sg,
                          image_cks = st_image_cks sg\<rparr>,
                         st_class_type_manager sg,
                         st_accu_new_class_names sg)))"

section \<open>Properties of the import\<close>

text \<open>
  C2 (the code departs from the claim): the labelmap with a background line of color
  (0,0,0) and the line \<open>name:10,20,30::\<close> parses to a table of two entries, the first of
  them sending \<open>background\<close> to (0,0,0): the color is compared as a list with a tuple, so the
  background line is never skipped. Imported with strategy ADD into an empty registry,
  the class id 0 given to \<open>background\<close> gets the color (0,0,0).
\<close>

theorem parse_labelmap_background:
  "parse_labelmap (Some [''background:0,0,0::'', ''name:10,20,30::'']) []
     = Inr [(''background'', (0, 0, 0)), (''name'', (10, 20, 30))]
   \<and> (case import_annotations_seg_mask []
            \<lparr>segmentation_class_isdir = True,
             labelmap_txt = Some [''background:0,0,0::'', ''name:10,20,30::''],
             xml_files = [], png_files = [], meta_yaml = None\<rparr> ADD
            \<lparr>st_image_cks = [], st_class_type_manager = [], st_accu_new_class_names = [],
             st_image_annotations = SingleTaskAnnotations0\<rparr> of
         Inl e \<Rightarrow> False
       | Inr s \<Rightarrow> map_id_color (st_image_annotations s) 0 = Some (0, 0, 0))"
  by code_simp

text \<open>
  The box importer under strategy STOP, with the one known class \<open>cat\<close> in the only XML
  file: nothing is accumulated and the import returns.
\<close>

lemma import_annotations_stop_voc_known:
  "case import_annotations MirAnnotations0
          [\<lparr>label_id = 0, main_name = ''cat'', aliases = []\<rparr>]
          (Some \<lparr>segmentation_class_isdir = False, labelmap_txt = None,
                 xml_files =
                   [(''img1'',
                     XmlAnnotation
                       \<lparr>ad_cks = [], ad_image_quality = None,
                        ad_objects =
                          [\<lparr>od_name = Some ''cat'', od_confidence = None,
                            od_box_quality = None, od_tags = [],
                            od_bndbox = Some [(''xmin'', 10), (''ymin'', 10),
                                              (''xmax'', 19), (''ymax'', 14)],
                            od_polygon = False\<rparr>]\<rparr>)],
                 png_files = [], meta_yaml = None\<rparr>)
          None [(''hash1'', ''img1'')] STOP AT_DET_BOX of
     Inl e \<Rightarrow> False
   | Inr (mir_annotation, class_type_manager, anno_import_result) \<Rightarrow>
       anno_import_result = []"
  by code_simp

text \<open>
  C1 (the code departs from the claim): a segmentation-mask directory whose labelmap
  names only the class \<open>cat\<close>, which the registry resolves to id 0, with one mask of one
  pixel of that class, imported with strategy STOP: the import fails with the
  unknown-types error listing \<open>cat\<close>, because the mask importer puts every name of the
  labelmap into the accumulated names.
\<close>

theorem import_annotations_stop_seg_mask:
  "id_and_main_name_for_name [\<lparr>label_id = 0, main_name = ''cat'', aliases = []\<rparr>] ''cat''
     = (0, ''cat'')
   \<and> import_annotations MirAnnotations0
        [\<lparr>label_id = 0, main_name = ''cat'', aliases = []\<rparr>]
        (Some \<lparr>segmentation_class_isdir = True,
               labelmap_txt = Some [''cat:10,20,30::''],
               xml_files = [], png_files = [(''img1'', MaskPng [[(10, 20, 30)]])],
               meta_yaml = None\<rparr>)
        None [(''hash1'', ''img1'')] STOP AT_SEG_MASK
     = Inl (MirRuntimeError RC_CMD_UNKNOWN_TYPES [''cat''])"
proof -
  have "case import_annotations MirAnnotations0
        [\<lparr>label_id = 0, main_name = ''cat'', aliases = []\<rparr>]
        (Some \<lparr>segmentation_class_isdir = True,
               labelmap_txt = Some [''cat:10,20,30::''],
               xml_files = [], png_files = [(''img1'', MaskPng [[(10, 20, 30)]])],
               meta_yaml = None\<rparr>)
        None [(''hash1'', ''img1'')] STOP AT_SEG_MASK of
          Inl e \<Rightarrow> e = MirRuntimeError RC_CMD_UNKNOWN_TYPES [''cat'']
        | Inr r \<Rightarrow> False"
    by code_simp
  then show ?thesis
    by (simp split: sum.splits)
qed

section \<open>The sandbox\<close>

text \<open>
  The sandbox root is a directory: a list of names with what they name, a file with its
  text or a directory. The list is what \<open>os.listdir\<close> gives, in its order. \<open>shutil.copytree\<close>
  copies the tree a name holds, \<open>shutil.rmtree\<close> removes the name.
\<close>

datatype node = File string | Dir "(string \<times> node) list"

type_synonym listing = "(string \<times> node) list"

datatype UpdaterErrorCode =
    INVALID_USER_LABEL_FILE
  | INVALID_USER_SPACE_VERSIONS
  | BACKUP_DIR_NOT_EMPTY

text \<open>
  The exceptions of the sandbox code: \<open>SandboxError\<close> with its code, the errors of the
  operating system (a file where a directory is expected, a missing path, an existing
  one), \<open>AttributeError\<close>, and what an upgrade function raises: an exception of class
  \<open>Exception\<close>, or one that is only a \<open>BaseException\<close> (which \<open>except Exception\<close> lets through).
\<close>

datatype py_exception =
    SandboxError UpdaterErrorCode
  | OSError
  | AttributeError
  | UserException string
  | UserBaseException string

definition is_Exception :: "py_exception \<Rightarrow> bool" where
  "is_Exception e = (case e of UserBaseException m \<Rightarrow> False | _ \<Rightarrow> True)"

datatype yaml_doc = YamlError | YamlOther | YamlDict "(string \<times> string) list"

text \<open>
  What the sandbox code takes from modules that are not part of the sources: the widths
  of the user and repo ids (\<open>IDProto\<close>), the default version (\<open>mir.version\<close>) and the YAML
  loader, which either raises, or gives a dictionary, or gives another value.
\<close>

record sandbox_env =
  ID_LEN_USER_ID :: nat
  ID_LEN_REPO_ID :: nat
  DEFAULT_YMIR_SRC_VERSION :: string
  yaml_safe_load :: "string \<Rightarrow> yaml_doc"

text \<open>\<open>re.match("\\d{n}", s)\<close>: the first \<open>n\<close> characters of \<open>s\<close> are digits.\<close>

definition match_digits :: "nat \<Rightarrow> string \<Rightarrow> bool" where
  "match_digits n s = (n \<le> length s \<and> list_all is_digit (take n s))"

definition has_git :: "node \<Rightarrow> bool" where
  "has_git repo =
     (case repo of
        File t \<Rightarrow> False
      | Dir l \<Rightarrow> (case map_of l ''.git'' of Some (Dir g) \<Rightarrow> True | _ \<Rightarrow> False))"

definition repos_of :: "sandbox_env \<Rightarrow> listing \<Rightarrow> string list" where
  "repos_of env user_dir =
     map fst (filter (\<lambda>(repo_id, repo). match_digits (ID_LEN_REPO_ID env) repo_id \<and> has_git repo)
                user_dir)"

fun detect_users_and_repos ::
  "sandbox_env \<Rightarrow> listing \<Rightarrow> py_exception + (string \<times> string list) list" where
  "detect_users_and_repos env [] = Inr []"
| "detect_users_and_repos env ((user_id, n) # rest) =
     (if \<not> match_digits (ID_LEN_USER_ID env) user_id then detect_users_and_repos env rest
      else
        (case n of
           File t \<Rightarrow> Inl OSError
         | Dir user_dir \<Rightarrow>
             (case detect_users_and_repos env rest of
                Inl e \<Rightarrow> Inl e
              | Inr user_to_repos \<Rightarrow> Inr ((user_id, repos_of env user_dir) # user_to_repos))))"

text \<open>
  The loop of \<open>detect_sandbox_src_ver\<close> over the users, with \<open>ver_to_users\<close> built so far.
\<close>

fun collect_versions ::
  "sandbox_env \<Rightarrow> listing \<Rightarrow> string list \<Rightarrow> (string \<times> string list) list
     \<Rightarrow> py_exception + (string \<times> string list) list" where
  "collect_versions env sandbox_root [] ver_to_users = Inr ver_to_users"
| "collect_versions env sandbox_root (user_id # rest) ver_to_users =
     (case map_of sandbox_root user_id of
        Some (Dir user_dir) \<Rightarrow>
          (case map_of user_dir ''labels.yaml'' of
             None \<Rightarrow> Inl (SandboxError INVALID_USER_LABEL_FILE)
           | Some (Dir d) \<Rightarrow> Inl OSError
           | Some (File text) \<Rightarrow>
               (case yaml_safe_load env text of
                  YamlError \<Rightarrow> Inl (SandboxError INVALID_USER_LABEL_FILE)
                | YamlOther \<Rightarrow> Inl AttributeError
                | YamlDict user_label_dict \<Rightarrow>
                    (let ver = (case map_of user_label_dict ''ymir_version'' of
                                  None \<Rightarrow> DEFAULT_YMIR_SRC_VERSION env
                                | Some v \<Rightarrow> v)
                     in collect_versions env sandbox_root rest
                          (AList.update ver (entry_of [] ver_to_users ver @ [user_id])
                             ver_to_users))))
      | _ \<Rightarrow> Inl (SandboxError INVALID_USER_LABEL_FILE))"

definition detect_sandbox_src_ver :: "sandbox_env \<Rightarrow> listing \<Rightarrow> py_exception + string" where
  "detect_sandbox_src_ver env sandbox_root =
     (case detect_users_and_repos env sandbox_root of
        Inl e \<Rightarrow> Inl e
      | Inr user_to_repos \<Rightarrow>
          (case collect_versions env sandbox_root (map fst user_to_repos) [] of
             Inl e \<Rightarrow> Inl e
           | Inr ver_to_users \<Rightarrow>
               if length ver_to_users \<noteq> 1
               then Inl (SandboxError INVALID_USER_SPACE_VERSIONS)
               else Inr (fst (hd ver_to_users))))"

text \<open>
  The functions below change the sandbox and may raise: they return the sandbox as they
  leave it, with the exception raised (if any).
\<close>

definition remove_backup :: "listing \<Rightarrow> listing \<times> py_exception option" where
  "remove_backup sandbox_root =
     (case map_of sandbox_root ''backup'' of
        Some (Dir b) \<Rightarrow> (AList.delete ''backup'' sandbox_root, None)
      | _ \<Rightarrow> (sandbox_root, Some OSError))"

text \<open>\<open>shutil.copytree(sandbox_root/user_id, backup_dir/user_id)\<close>.\<close>

definition copy_to_backup :: "string \<Rightarrow> listing \<Rightarrow> listing \<times> py_exception option" where
  "copy_to_backup user_id sandbox_root =
     (case (map_of sandbox_root user_id, map_of sandbox_root ''backup'') of
        (Some (Dir user_dir), Some (Dir b)) \<Rightarrow>
          (if map_of b user_id \<noteq> None then (sandbox_root, Some OSError)
           else (AList.update ''backup'' (Dir (AList.update user_id (Dir user_dir) b))
                   sandbox_root, None))
      | _ \<Rightarrow> (sandbox_root, Some OSError))"

fun copy_users_to_backup :: "string list \<Rightarrow> listing \<Rightarrow> listing \<times> py_exception option" where
  "copy_users_to_backup [] sandbox_root = (sandbox_root, None)"
| "copy_users_to_backup (user_id # rest) sandbox_root =
     (case copy_to_backup user_id sandbox_root of
        (r, Some e) \<Rightarrow> (r, Some e)
      | (r, None) \<Rightarrow> copy_users_to_backup rest r)"

definition backup :: "sandbox_env \<Rightarrow> listing \<Rightarrow> listing \<times> py_exception option" where
  "backup env sandbox_root =
     (case map_of sandbox_root ''backup'' of
        Some (File t) \<Rightarrow> (sandbox_root, Some OSError)
      | made \<Rightarrow>
          (let root1 = (if made = None then AList.update ''backup'' (Dir []) sandbox_root
                        else sandbox_root)
           in if map_of root1 ''backup'' \<noteq> Some (Dir [])
              then (root1, Some (SandboxError BACKUP_DIR_NOT_EMPTY))
              else
                (case detect_users_and_repos env root1 of
                   Inl e \<Rightarrow> (root1, Some e)
                 | Inr user_to_repos \<Rightarrow> copy_users_to_backup (map fst user_to_repos) root1)))"

text \<open>
  \<open>shutil.rmtree(dst_user_dir)\<close> and \<open>shutil.copytree(src_user_dir, dst_user_dir)\<close> for one
  user of the roll back.
\<close>

definition restore_user :: "string \<Rightarrow> listing \<Rightarrow> listing \<times> py_exception option" where
  "restore_user user_id sandbox_root =
     (if map_of sandbox_root user_id = None then (sandbox_root, Some OSError)
      else
        (let root1 = AList.delete user_id sandbox_root
         in case map_of root1 ''backup'' of
              Some (Dir b) \<Rightarrow>
                (case map_of b user_id of
                   Some (Dir user_dir) \<Rightarrow> (AList.update user_id (Dir user_dir) root1, None)
                 | _ \<Rightarrow> (root1, Some OSError))
            | _ \<Rightarrow> (root1, Some OSError)))"

fun restore_users :: "string list \<Rightarrow> listing \<Rightarrow> listing \<times> py_exception option" where
  "restore_users [] sandbox_root = (sandbox_root, None)"
| "restore_users (user_id # rest) sandbox_root =
     (case restore_user user_id sandbox_root of
        (r, Some e) \<Rightarrow> (r, Some e)
      | (r, None) \<Rightarrow> restore_users rest r)"

definition roll_back :: "sandbox_env \<Rightarrow> listing \<Rightarrow> listing \<times> py_exception option" where
  "roll_back env sandbox_root =
     (case detect_users_and_repos env sandbox_root of
        Inl e \<Rightarrow> (sandbox_root, Some e)
      | Inr user_to_repos \<Rightarrow>
          (case restore_users (map fst user_to_repos) sandbox_root of
             (r, Some e) \<Rightarrow> (r, Some e)
           | (r, None) \<Rightarrow> remove_backup r))"

text \<open>
  An upgrade function is called with the path of a repo, \<open>sandbox_root/user_id/repo_id\<close>:
  it takes the sandbox, the user id and the repo id, and returns the sandbox as it leaves
  it, with the exception it raises (if any).
\<close>

type_synonym update_func = "listing \<Rightarrow> string \<Rightarrow> string \<Rightarrow> listing \<times> py_exception option"

fun run_update_funcs ::
  "update_func list \<Rightarrow> string \<Rightarrow> string \<Rightarrow> listing \<Rightarrow> listing \<times> py_exception option" where
  "run_update_funcs [] user_id repo_id sandbox_root = (sandbox_root, None)"
| "run_update_funcs (update_func # rest) user_id repo_id sandbox_root =
     (case update_func sandbox_root user_id repo_id of
        (r, Some e) \<Rightarrow> (r, Some e)
      | (r, None) \<Rightarrow> run_update_funcs rest user_id repo_id r)"

fun update_repos ::
  "update_func list \<Rightarrow> string \<Rightarrow> string list \<Rightarrow> listing \<Rightarrow> listing \<times> py_exception option" where
  "update_repos update_funcs user_id [] sandbox_root = (sandbox_root, None)"
| "update_repos update_funcs user_id (repo_id # rest) sandbox_root =
     (case run_update_funcs update_funcs user_id repo_id sandbox_root of
        (r, Some e) \<Rightarrow> (r, Some e)
      | (r, None) \<Rightarrow> update_repos update_funcs user_id rest r)"

fun update_users ::
  "update_func list \<Rightarrow> (string \<times> string list) list \<Rightarrow> listing
     \<Rightarrow> listing \<times> py_exception option" where
  "update_users update_funcs [] sandbox_root = (sandbox_root, None)"
| "update_users update_funcs ((user_id, repo_ids) # rest) sandbox_root =
     (case update_repos update_funcs user_id repo_ids sandbox_root of
        (r, Some e) \<Rightarrow> (r, Some e)
      | (r, None) \<Rightarrow> update_users update_funcs rest r)"

definition update ::
  "sandbox_env \<Rightarrow> listing \<Rightarrow> update_func list \<Rightarrow> listing \<times> py_exception option" where
  "update env sandbox_root update_funcs =
     (case backup env sandbox_root of
        (root1, Some e) \<Rightarrow> (root1, Some e)
      | (root1, None) \<Rightarrow>
          (case detect_users_and_repos env root1 of
             Inl e \<Rightarrow> (root1, Some e)
           | Inr user_to_repos \<Rightarrow>
               (case update_users update_funcs user_to_repos root1 of
                  (root2, Some e) \<Rightarrow>
                    if is_Exception e then
                      (case roll_back env root2 of
                         (root3, Some e') \<Rightarrow> (root3, Some e')
                       | (root3, None) \<Rightarrow> (root3, Some e))
                    else (root2, Some e)
                | (root2, None) \<Rightarrow> remove_backup root2)))"

section \<open>Properties of the sandbox\<close>

lemma detect_no_users:
  "list_all (\<lambda>name. \<not> match_digits (ID_LEN_USER_ID env) name) (map fst sandbox_root)
   \<Longrightarrow> detect_users_and_repos env sandbox_root = Inr []"
  by (induction sandbox_root) auto

text \<open>
  C10: in a sandbox root where no entry matches the pattern of a user id,
  detect_sandbox_src_ver fails with the error for invalid user-space versions.
\<close>

theorem detect_sandbox_src_ver_no_users:
  assumes "list_all (\<lambda>name. \<not> match_digits (ID_LEN_USER_ID env) name) (map fst sandbox_root)"
  shows "detect_sandbox_src_ver env sandbox_root
           = Inl (SandboxError INVALID_USER_SPACE_VERSIONS)"
  using detect_no_users[OF assms] by (simp add: detect_sandbox_src_ver_def)

theorem detect_sandbox_src_ver_no_users_witness:
  "detect_sandbox_src_ver
      \<lparr>ID_LEN_USER_ID = 4, ID_LEN_REPO_ID = 6, DEFAULT_YMIR_SRC_VERSION = ''1.1.0'',
       yaml_safe_load = (\<lambda>t. YamlOther)\<rparr>
      [(''backup'', Dir []), (''12a4'', Dir [(''labels.yaml'', File [])])]
     = Inl (SandboxError INVALID_USER_SPACE_VERSIONS)"
proof -
  have "list_all (\<lambda>name. \<not> match_digits 4 name) [''backup'', ''12a4'']"
    by code_simp
  then show ?thesis
    using detect_sandbox_src_ver_no_users
      [of "\<lparr>ID_LEN_USER_ID = 4, ID_LEN_REPO_ID = 6, DEFAULT_YMIR_SRC_VERSION = ''1.1.0'',
            yaml_safe_load = (\<lambda>t. YamlOther)\<rparr>"
          "[(''backup'', Dir []), (''12a4'', Dir [(''labels.yaml'', File [])])]"]
    by simp
qed

subsection \<open>Roll back after a failed upgrade\<close>

text \<open>
  What an upgrade function may touch: called for a repo of the user \<open>u\<close>, it leaves the
  names in the sandbox root and every entry but the directory of \<open>u\<close> as they are, and a
  directory stays a directory. \<open>unchanged_outside U r r'\<close> says so of two states of the
  sandbox root, for the users in \<open>U\<close>.
\<close>

definition unchanged_outside :: "string set \<Rightarrow> listing \<Rightarrow> listing \<Rightarrow> bool" where
  "unchanged_outside U r r' =
     (map fst r' = map fst r
      \<and> (\<forall>k. k \<notin> U \<longrightarrow> map_of r' k = map_of r k)
      \<and> (\<forall>k d. map_of r k = Some (Dir d) \<longrightarrow> (\<exists>d'. map_of r' k = Some (Dir d'))))"

definition modifies_only_user :: "update_func \<Rightarrow> bool" where
  "modifies_only_user f = (\<forall>r user_id repo_id. unchanged_outside {user_id} r (fst (f r user_id repo_id)))"

lemma unchanged_outside_refl: "unchanged_outside U r r"
  by (simp add: unchanged_outside_def)

lemma unchanged_outside_trans:
  "unchanged_outside U r r' \<Longrightarrow> unchanged_outside V r' r'' \<Longrightarrow> unchanged_outside (U \<union> V) r r''"
  unfolding unchanged_outside_def by (auto; metis)

lemma run_update_funcs_unchanged:
  "list_all modifies_only_user fs \<Longrightarrow>
   unchanged_outside {u} r (fst (run_update_funcs fs u repo r))"
proof (induction fs arbitrary: r)
  case Nil
  then show ?case by (simp add: unchanged_outside_refl)
next
  case (Cons f fs)
  from Cons.prems have f: "unchanged_outside {u} r (fst (f r u repo))"
    by (simp add: modifies_only_user_def)
  obtain r1 e where r1: "f r u repo = (r1, e)" by (cases "f r u repo")
  show ?case
  proof (cases e)
    case None
    from Cons.IH[of r1] Cons.prems
    have "unchanged_outside {u} r1 (fst (run_update_funcs fs u repo r1))" by simp
    with f r1 have "unchanged_outside ({u} \<union> {u}) r (fst (run_update_funcs fs u repo r1))"
      using unchanged_outside_trans by fastforce
    with r1 None show ?thesis by simp
  next
    case (Some a)
    with f r1 show ?thesis by simp
  qed
qed

lemma update_repos_unchanged:
  "list_all modifies_only_user fs \<Longrightarrow>
   unchanged_outside {u} r (fst (update_repos fs u repos r))"
proof (induction repos arbitrary: r)
  case Nil
  then show ?case by (simp add: unchanged_outside_refl)
next
  case (Cons repo repos)
  obtain r1 e where r1: "run_update_funcs fs u repo r = (r1, e)"
    by (cases "run_update_funcs fs u repo r")
  from run_update_funcs_unchanged[OF Cons.prems, of u r repo] r1
  have f: "unchanged_outside {u} r r1" by simp
  show ?case
  proof (cases e)
    case None
    from Cons.IH[OF Cons.prems, of r1] f
    have "unchanged_outside ({u} \<union> {u}) r (fst (update_repos fs u repos r1))"
      using unchanged_outside_trans by blast
    with r1 None show ?thesis by simp
  next
    case (Some a)
    with f r1 show ?thesis by simp
  qed
qed

lemma unchanged_outside_mono:
  "unchanged_outside U r r' \<Longrightarrow> U \<subseteq> V \<Longrightarrow> unchanged_outside V r r'"
  unfolding unchanged_outside_def by auto

lemma update_users_unchanged:
  "list_all modifies_only_user fs \<Longrightarrow>
   unchanged_outside (fst ` set utr) r (fst (update_users fs utr r))"
proof (induction utr arbitrary: r)
  case Nil
  then show ?case by (simp add: unchanged_outside_refl)
next
  case (Cons ur utr)
  obtain u repos where ur: "ur = (u, repos)" by (cases ur)
  obtain r1 e where r1: "update_repos fs u repos r = (r1, e)"
    by (cases "update_repos fs u repos r")
  from update_repos_unchanged[OF Cons.prems, of u r repos] r1
  have f: "unchanged_outside {u} r r1" by simp
  show ?case
  proof (cases e)
    case None
    from Cons.IH[OF Cons.prems, of r1] f
    have "unchanged_outside ({u} \<union> fst ` set utr) r (fst (update_users fs utr r1))"
      using unchanged_outside_trans by blast
    with r1 None ur show ?thesis by simp
  next
    case (Some a)
    from f have "unchanged_outside (fst ` set (ur # utr)) r r1"
      by (rule unchanged_outside_mono) (simp add: ur)
    with r1 Some ur show ?thesis by simp
  qed
qed

lemma not_match_backup: "0 < n \<Longrightarrow> \<not> match_digits n ''backup''"
  by (cases n) (simp_all add: match_digits_def is_digit_def)

lemma detect_users:
  "detect_users_and_repos env r = Inr utr \<Longrightarrow>
   map fst utr = filter (match_digits (ID_LEN_USER_ID env)) (map fst r)
   \<and> (\<forall>(k, nd) \<in> set r. match_digits (ID_LEN_USER_ID env) k \<longrightarrow> (\<exists>d. nd = Dir d))"
proof (induction r arbitrary: utr)
  case Nil
  then show ?case by simp
next
  case (Cons a r)
  obtain k nd where a: "a = (k, nd)" by (cases a)
  show ?case
  proof (cases "match_digits (ID_LEN_USER_ID env) k")
    case False
    with Cons a show ?thesis by simp
  next
    case True
    with Cons.prems a obtain d utr' where d: "nd = Dir d"
      and utr': "detect_users_and_repos env r = Inr utr'" "utr = (k, repos_of env d) # utr'"
      by (auto split: node.splits sum.splits)
    from Cons.IH[OF utr'(1)] True a d utr'(2) show ?thesis by simp
  qed
qed

lemma detect_succeeds:
  "\<forall>(k, nd) \<in> set r. match_digits (ID_LEN_USER_ID env) k \<longrightarrow> (\<exists>d. nd = Dir d) \<Longrightarrow>
   \<exists>utr. detect_users_and_repos env r = Inr utr"
  by (induction r) (auto split: node.splits)

lemma copy_users_to_backup_ok:
  assumes "''backup'' \<notin> set us" and "map_of r ''backup'' = Some (Dir b)"
    and "copy_users_to_backup us r = (r', None)"
  shows "\<exists>b'. map_of r' ''backup'' = Some (Dir b')
           \<and> (\<forall>u \<in> set us. map_of b' u = map_of r u)
           \<and> (\<forall>k. k \<noteq> ''backup'' \<longrightarrow> map_of r' k = map_of r k)
           \<and> map fst r' = map fst r"
  using assms
proof (induction us arbitrary: r b)
  case Nil
  then show ?case by simp
next
  case (Cons u us)
  from Cons.prems(3) obtain r1 where r1: "copy_to_backup u r = (r1, None)"
    and rest: "copy_users_to_backup us r1 = (r', None)"
    by (auto split: prod.splits option.splits)
  from Cons.prems(1) have ub: "u \<noteq> ''backup''" by auto
  from r1 Cons.prems(2) obtain ud where ud: "map_of r u = Some (Dir ud)"
    and r1_eq: "r1 = AList.update ''backup'' (Dir (AList.update u (Dir ud) b)) r"
    by (auto simp: copy_to_backup_def split: option.splits node.splits if_splits)
  have b1: "map_of r1 ''backup'' = Some (Dir (AList.update u (Dir ud) b))"
    by (simp add: r1_eq update_conv')
  have k1: "map_of r1 k = map_of r k" if "k \<noteq> ''backup''" for k
    using that by (simp add: r1_eq update_conv')
  have keys1: "map fst r1 = map fst r"
  proof -
    from Cons.prems(2) have "''backup'' \<in> fst ` set r"
      by (metis domI dom_map_of_conv_image_fst)
    then show ?thesis by (simp add: r1_eq update_keys)
  qed
  from Cons.prems(1) have "''backup'' \<notin> set us" by simp
  from Cons.IH[OF this b1 rest] obtain b' where b': "map_of r' ''backup'' = Some (Dir b')"
    and c: "\<forall>u' \<in> set us. map_of b' u' = map_of r1 u'"
    and o: "\<forall>k. k \<noteq> ''backup'' \<longrightarrow> map_of r' k = map_of r1 k"
    and ks: "map fst r' = map fst r1"
    by blast
  have "map_of b' u = map_of r u"
  proof (cases "u \<in> set us")
    case True
    with c k1[OF ub] show ?thesis by simp
  next
    case False
    text \<open>the copy of \<open>u\<close> is not touched by the later users\<close>
    have "\<And>us r b r'. u \<notin> set us \<Longrightarrow> map_of r ''backup'' = Some (Dir b) \<Longrightarrow>
            copy_users_to_backup us r = (r', None) \<Longrightarrow>
            \<exists>b'. map_of r' ''backup'' = Some (Dir b') \<and> map_of b' u = map_of b u"
    proof -
      fix us :: "string list" and r b r'
      show "u \<notin> set us \<Longrightarrow> map_of r ''backup'' = Some (Dir b) \<Longrightarrow>
            copy_users_to_backup us r = (r', None) \<Longrightarrow>
            \<exists>b'. map_of r' ''backup'' = Some (Dir b') \<and> map_of b' u = map_of b u"
      proof (induction us arbitrary: r b)
        case Nil
        then show ?case by simp
      next
        case (Cons v vs)
        from Cons.prems(3) obtain r1 where r1: "copy_to_backup v r = (r1, None)"
          and rest: "copy_users_to_backup vs r1 = (r', None)"
          by (auto split: prod.splits option.splits)
        from r1 Cons.prems(2) obtain vd where
          "r1 = AList.update ''backup'' (Dir (AList.update v (Dir vd) b)) r"
          by (auto simp: copy_to_backup_def split: option.splits node.splits if_splits)
        then have "map_of r1 ''backup'' = Some (Dir (AList.update v (Dir vd) b))"
          by (simp add: update_conv')
        from Cons.IH[OF _ this rest] Cons.prems(1) show ?case
          by (auto simp: update_conv')
      qed
    qed
    from this[OF False b1 rest] b' ud show ?thesis
      by (simp add: update_conv')
  qed
  moreover have "\<forall>u' \<in> set us. map_of b' u' = map_of r u'"
  proof
    fix u' assume u': "u' \<in> set us"
    with \<open>''backup'' \<notin> set us\<close> have "u' \<noteq> ''backup''" by blast
    with c u' k1 show "map_of b' u' = map_of r u'" by simp
  qed
  moreover have "\<forall>k. k \<noteq> ''backup'' \<longrightarrow> map_of r' k = map_of r k"
    using o k1 by simp
  ultimately show ?case
    using b' ks keys1 by simp
qed

lemma restore_users_ok:
  assumes "''backup'' \<notin> set us" and "map_of r ''backup'' = Some (Dir b)"
    and "\<forall>u \<in> set us. (\<exists>d. map_of b u = Some (Dir d)) \<and> map_of r u \<noteq> None"
  shows "\<exists>r'. restore_users us r = (r', None)
           \<and> map_of r' ''backup'' = Some (Dir b)
           \<and> (\<forall>u \<in> set us. map_of r' u = map_of b u)
           \<and> (\<forall>k. k \<notin> set us \<longrightarrow> map_of r' k = map_of r k)"
  using assms
proof (induction us arbitrary: r)
  case Nil
  then show ?case by simp
next
  case (Cons u us)
  from Cons.prems(1) have ub: "u \<noteq> ''backup''" by auto
  from Cons.prems(3) obtain d where d: "map_of b u = Some (Dir d)" and live: "map_of r u \<noteq> None"
    by auto
  define r1 where "r1 = AList.update u (Dir d) (AList.delete u r)"
  have ru: "restore_user u r = (r1, None)"
    using ub d live Cons.prems(2)
    by (simp add: restore_user_def r1_def Let_def delete_conv')
  have m1: "map_of r1 = (map_of r)(u \<mapsto> Dir d)"
    by (simp add: r1_def update_conv' delete_conv')
  have b1: "map_of r1 ''backup'' = Some (Dir b)"
    using ub Cons.prems(2) by (simp add: m1)
  have p1: "\<forall>u' \<in> set us. (\<exists>d. map_of b u' = Some (Dir d)) \<and> map_of r1 u' \<noteq> None"
    using Cons.prems(3) by (simp add: m1)
  from Cons.prems(1) have "''backup'' \<notin> set us" by simp
  from Cons.IH[OF this b1 p1] obtain r' where r': "restore_users us r1 = (r', None)"
    and bk: "map_of r' ''backup'' = Some (Dir b)"
    and us: "\<forall>u' \<in> set us. map_of r' u' = map_of b u'"
    and o: "\<forall>k. k \<notin> set us \<longrightarrow> map_of r' k = map_of r1 k"
    by blast
  have "map_of r' u = map_of b u"
  proof (cases "u \<in> set us")
    case True
    with us show ?thesis by simp
  next
    case False
    with o d show ?thesis by (simp add: m1)
  qed
  with ru r' bk us o show ?case
    by (auto simp: m1)
qed

lemma distinct_map_of:
  "distinct (map fst r) \<Longrightarrow> (k, nd) \<in> set r \<Longrightarrow> map_of r k = Some nd"
  by simp

text \<open>
  C7: in a sandbox whose entries have distinct names, with upgrade functions that change
  nothing outside the directory of the user they are called for, once the backup is made
  and the users are discovered: when an upgrade function raises an exception, update
  raises that exception, the backup directory is gone and every discovered user directory
  holds what it held before the update; when none raises, update returns and the backup
  directory is gone.
\<close>

theorem update_rolls_back:
  assumes n: "0 < ID_LEN_USER_ID env"
    and dist: "distinct (map fst sandbox_root)"
    and fr: "list_all modifies_only_user update_funcs"
    and bk: "backup env sandbox_root = (root1, None)"
    and det: "detect_users_and_repos env root1 = Inr user_to_repos"
    and up: "update_users update_funcs user_to_repos root1 = (root2, raised)"
  shows "(\<forall>e. raised = Some e \<and> is_Exception e \<longrightarrow>
            (\<exists>root3. update env sandbox_root update_funcs = (root3, Some e)
               \<and> map_of root3 ''backup'' = None
               \<and> (\<forall>user_id \<in> fst ` set user_to_repos.
                     map_of root3 user_id = map_of sandbox_root user_id)))
       \<and> (raised = None \<longrightarrow>
            (\<exists>root3. update env sandbox_root update_funcs = (root3, None)
               \<and> map_of root3 ''backup'' = None))"
proof -
  let ?m = "match_digits (ID_LEN_USER_ID env)"
  text \<open>the state after the backup\<close>
  define root0 where
    "root0 = (if map_of sandbox_root ''backup'' = None
              then AList.update ''backup'' (Dir []) sandbox_root else sandbox_root)"
  from bk obtain utr0 where b0: "map_of root0 ''backup'' = Some (Dir [])"
    and det0: "detect_users_and_repos env root0 = Inr utr0"
    and cp0: "copy_users_to_backup (map fst utr0) root0 = (root1, None)"
    unfolding backup_def root0_def Let_def
    by (auto split: option.splits node.splits sum.splits if_splits)
  define us0 where "us0 = map fst utr0"
  from cp0 have cp: "copy_users_to_backup us0 root0 = (root1, None)"
    by (simp add: us0_def)
  have k0: "map_of root0 k = map_of sandbox_root k" if "k \<noteq> ''backup''" for k
    using that by (simp add: root0_def update_conv')
  have dist0: "distinct (map fst root0)"
    using dist by (simp add: root0_def distinct_update)
  from detect_users[OF det0] have us0: "us0 = filter ?m (map fst root0)"
    and dirs0: "\<forall>(k, nd) \<in> set root0. ?m k \<longrightarrow> (\<exists>d. nd = Dir d)"
    by (auto simp: us0_def)
  have nb0: "''backup'' \<notin> set us0"
    using not_match_backup[OF n] by (simp add: us0)
  from copy_users_to_backup_ok[OF nb0 b0 cp] obtain b where b1: "map_of root1 ''backup'' = Some (Dir b)"
    and cps: "\<forall>u \<in> set us0. map_of b u = map_of root0 u"
    and k1: "\<forall>k. k \<noteq> ''backup'' \<longrightarrow> map_of root1 k = map_of root0 k"
    and keys1: "map fst root1 = map fst root0"
    by blast
  from detect_users[OF det] keys1 us0 have us1: "map fst user_to_repos = us0"
    by simp
  then have users: "fst ` set user_to_repos = set us0"
    by (metis list.set_map)
  have dist1: "distinct (map fst root1)" using dist0 keys1 by simp
  text \<open>the state after the upgrade functions\<close>
  from update_users_unchanged[OF fr, of user_to_repos root1] up
  have un: "unchanged_outside (set us0) root1 root2" by (simp add: users)
  then have keys2: "map fst root2 = map fst root1"
    and out2: "\<And>k. k \<notin> set us0 \<Longrightarrow> map_of root2 k = map_of root1 k"
    and dir2: "\<And>k d. map_of root1 k = Some (Dir d) \<Longrightarrow> \<exists>d'. map_of root2 k = Some (Dir d')"
    unfolding unchanged_outside_def by auto
  have b2: "map_of root2 ''backup'' = Some (Dir b)"
    using out2[OF nb0] b1 by simp
  have dist2: "distinct (map fst root2)" using dist1 keys2 by simp
  have not_backup: "u \<noteq> ''backup''" if "u \<in> set us0" for u
    using that nb0 by blast
  have user_dir0: "\<exists>d. map_of root0 u = Some (Dir d)" if "u \<in> set us0" for u
  proof -
    from that us0 have m: "?m u" and "u \<in> set (map fst root0)" by auto
    then obtain nd where nd: "(u, nd) \<in> set root0" by auto
    with dirs0 m obtain d where "nd = Dir d" by blast
    with distinct_map_of[OF dist0 nd] show ?thesis by simp
  qed
  have user_dir1: "\<exists>d. map_of root1 u = Some (Dir d)" if "u \<in> set us0" for u
    using user_dir0[OF that] not_backup[OF that] k1 by simp
  have dirs2: "\<forall>(k, nd) \<in> set root2. ?m k \<longrightarrow> (\<exists>d. nd = Dir d)"
  proof (clarify)
    fix k nd assume kn: "(k, nd) \<in> set root2" and m: "?m k"
    then have "k \<in> set (map fst root2)" by force
    with keys2 keys1 m us0 have "k \<in> set us0" by simp
    from user_dir1[OF this] dir2 obtain d' where "map_of root2 k = Some (Dir d')" by blast
    with distinct_map_of[OF dist2 kn] show "\<exists>d. nd = Dir d" by auto
  qed
  from detect_succeeds[OF dirs2] obtain utr2 where det2: "detect_users_and_repos env root2 = Inr utr2"
    by blast
  from detect_users[OF det2] keys2 keys1 us0 have us2: "map fst utr2 = us0"
    by simp
  have pre: "\<forall>u \<in> set us0. (\<exists>d. map_of b u = Some (Dir d)) \<and> map_of root2 u \<noteq> None"
  proof
    fix u assume u: "u \<in> set us0"
    from user_dir0[OF u] obtain d where d: "map_of root0 u = Some (Dir d)" by blast
    with cps u have "map_of b u = Some (Dir d)" by simp
    moreover from user_dir1[OF u] dir2 have "map_of root2 u \<noteq> None" by fastforce
    ultimately show "(\<exists>d. map_of b u = Some (Dir d)) \<and> map_of root2 u \<noteq> None" by blast
  qed
  from restore_users_ok[OF nb0 b2 pre] obtain r' where rs: "restore_users us0 root2 = (r', None)"
    and rb: "map_of r' ''backup'' = Some (Dir b)"
    and ru: "\<forall>u \<in> set us0. map_of r' u = map_of b u"
    by blast
  have rollback: "roll_back env root2 = (AList.delete ''backup'' r', None)"
    by (simp add: roll_back_def det2 us2 rs remove_backup_def rb)
  have restored: "map_of (AList.delete ''backup'' r') u = map_of sandbox_root u"
    if "u \<in> set us0" for u
  proof -
    from ru that cps have "map_of r' u = map_of root0 u" by simp
    with not_backup[OF that] k0 show ?thesis by (simp add: delete_conv')
  qed
  show ?thesis
  proof (intro conjI allI impI)
    fix e assume e: "raised = Some e \<and> is_Exception e"
    with bk det up rollback have "update env sandbox_root update_funcs = (AList.delete ''backup'' r', Some e)"
      by (simp add: update_def)
    with restored show "\<exists>root3. update env sandbox_root update_funcs = (root3, Some e)
               \<and> map_of root3 ''backup'' = None
               \<and> (\<forall>user_id \<in> fst ` set user_to_repos.
                     map_of root3 user_id = map_of sandbox_root user_id)"
      by (simp add: delete_conv' users)
  next
    assume "raised = None"
    with bk det up b2 have "update env sandbox_root update_funcs = (AList.delete ''backup'' root2, None)"
      by (simp add: update_def remove_backup_def)
    then show "\<exists>root3. update env sandbox_root update_funcs = (root3, None)
               \<and> map_of root3 ''backup'' = None"
      by (simp add: delete_conv')
  qed
qed
text \<open>
  An upgrade function for the examples: it writes a file \<open>upgraded\<close> into the repo it is
  called for, and raises for the repo \<open>000002\<close> after writing.
\<close>

definition mark_repo :: update_func where
  "mark_repo r user_id repo_id =
     (case map_of r user_id of
        Some (Dir user_dir) \<Rightarrow>
          (AList.update user_id
             (Dir (AList.update repo_id
                     (Dir (AList.update ''upgraded'' (File [])
                             (case map_of user_dir repo_id of Some (Dir d) \<Rightarrow> d | _ \<Rightarrow> [])))
                     user_dir)) r,
           if repo_id = ''000002'' then Some (UserException ''upgrade failed'') else None)
      | _ \<Rightarrow> (r, Some OSError))"

lemma modifies_only_user_mark_repo: "modifies_only_user mark_repo"
proof -
  have "unchanged_outside {u} r (fst (mark_repo r u repo))" for r u repo
  proof (cases "map_of r u")
    case None
    then show ?thesis by (simp add: mark_repo_def unchanged_outside_refl)
  next
    case (Some nd)
    then have "u \<in> fst ` set r"
      by (metis domI dom_map_of_conv_image_fst)
    with Some show ?thesis
      by (cases nd) (auto simp: mark_repo_def unchanged_outside_def update_keys update_conv')
  qed
  then show ?thesis by (simp add: modifies_only_user_def)
qed

text \<open>
  A sandbox for the examples: two users with one repo each, ids of four and six digits.
\<close>

definition example_env :: sandbox_env where
  "example_env =
     \<lparr>ID_LEN_USER_ID = 4, ID_LEN_REPO_ID = 6, DEFAULT_YMIR_SRC_VERSION = ''1.1.0'',
      yaml_safe_load = (\<lambda>t. YamlOther)\<rparr>"

definition example_user :: "string \<Rightarrow> node" where
  "example_user repo_id =
     Dir [(''labels.yaml'', File ''ymir_version: 1.1.0''), (repo_id, Dir [(''.git'', Dir [])])]"

definition example_root :: listing where
  "example_root = [(''0001'', example_user ''000001''), (''0002'', example_user ''000002'')]"

theorem update_rolls_back_witness:
  "\<exists>root3. update example_env example_root [mark_repo]
              = (root3, Some (UserException ''upgrade failed''))
     \<and> map_of root3 ''backup'' = None
     \<and> map_of root3 ''0001'' = Some (example_user ''000001'')
     \<and> map_of root3 ''0002'' = Some (example_user ''000002'')"
proof -
  have bk: "backup example_env example_root
     = (example_root @ [(''backup'', Dir example_root)], None)"
    by code_simp
  have det: "detect_users_and_repos example_env
       (example_root @ [(''backup'', Dir example_root)])
     = Inr [(''0001'', [''000001'']), (''0002'', [''000002''])]"
    by code_simp
  have up: "update_users [mark_repo] [(''0001'', [''000001'']), (''0002'', [''000002''])]
       (example_root @ [(''backup'', Dir example_root)])
     = ([(''0001'', Dir [(''labels.yaml'', File ''ymir_version: 1.1.0''),
                        (''000001'', Dir [(''.git'', Dir []), (''upgraded'', File [])])]),
         (''0002'', Dir [(''labels.yaml'', File ''ymir_version: 1.1.0''),
                        (''000002'', Dir [(''.git'', Dir []), (''upgraded'', File [])])]),
         (''backup'', Dir example_root)],
        Some (UserException ''upgrade failed''))"
    by code_simp
  have fr: "list_all modifies_only_user [mark_repo]"
    by (simp add: modifies_only_user_mark_repo)
  have n: "0 < ID_LEN_USER_ID example_env"
    by (simp add: example_env_def)
  have dist: "distinct (map fst example_root)"
    by (simp add: example_root_def)
  from update_rolls_back[OF n dist fr bk det up] show ?thesis
    by (simp add: is_Exception_def example_root_def)
qed

end
